theory Spec2Isabelle
  imports Complex_Main
begin

section \<open>Boundary-crossing benchmark: the linked list and its traversals\<close>

subsection \<open>Errors\<close>

text \<open>
  Every failure of the program is a failed \<^verbatim>\<open>assert\<close>, which raises
  AssertionError with a message. The constructors below are the AssertionErrors of
  \<^verbatim>\<open>bench.py\<close>, one per assert statement, carrying the values that the message prints.
  Assertions are modelled as enabled (the interpreter's default). The one other failure is
  the division of a float by 0.0, which raises ZeroDivisionError.
\<close>

datatype error =
    ListLengthNotPositive int
  | IterationsNotPositive int
  | FnNotCallable
  | SumWrong string int int
  | ZeroDivisionError

subsection \<open>Objects of class PyNode in a store\<close>

text \<open>
  \<^verbatim>\<open>python_node.py\<close>: a dataclass with the fields \<^verbatim>\<open>value: int\<close> and
  \<^verbatim>\<open>next: Optional[PyNode]\<close>. Instances are mutable objects with identity, so
  they live in a store: a reference is an address, the absence marker None is
  \<open>None\<close>. The fields are called \<open>node_value\<close> and \<open>node_next\<close>.
  Creating an instance takes the next unused address.
\<close>

type_synonym addr = nat

record PyNode_obj =
  node_value :: int
  node_next :: "addr option"

record heap =
  cells :: "addr \<Rightarrow> PyNode_obj"
  fresh :: addr

definition new_PyNode :: "int \<Rightarrow> addr option \<Rightarrow> heap \<Rightarrow> addr \<times> heap" where
  "new_PyNode v nx h =
     (fresh h,
      h\<lparr>cells := (cells h)(fresh h := \<lparr>node_value = v, node_next = nx\<rparr>),
        fresh := Suc (fresh h)\<rparr>)"

definition load_value :: "addr \<Rightarrow> heap \<Rightarrow> int \<times> heap" where
  "load_value a h = (node_value (cells h a), h)"

definition load_next :: "addr \<Rightarrow> heap \<Rightarrow> addr option \<times> heap" where
  "load_next a h = (node_next (cells h a), h)"

subsection \<open>Node classes\<close>

text \<open>
  \<^verbatim>\<open>build_list\<close> and \<^verbatim>\<open>python_sum_list\<close> work on any node class: they call
  the class to construct a node and read the attributes \<^verbatim>\<open>.value\<close> and \<^verbatim>\<open>.next\<close>
  of its instances. A node class is these three operations over a world \<open>'w\<close> and a type
  of references \<open>'r\<close>; each operation returns its result and the world after it.
\<close>

record ('r, 'w) node_class =
  construct :: "int \<Rightarrow> 'r option \<Rightarrow> 'w \<Rightarrow> 'r \<times> 'w"
  get_value :: "'r \<Rightarrow> 'w \<Rightarrow> int \<times> 'w"
  get_next :: "'r \<Rightarrow> 'w \<Rightarrow> 'r option \<times> 'w"

definition PyNode :: "(addr, heap) node_class" where
  "PyNode = \<lparr>construct = new_PyNode, get_value = load_value, get_next = load_next\<rparr>"

subsection \<open>\<^verbatim>\<open>py_sum_list\<close> (python\_node.py)\<close>

text \<open>
  \<^verbatim>\<open>
  total = 0
  current = head
  while current is not None:
      total += current.value
      current = current.next
  return total
  \<close>
  The loop need not end (a cyclic list), so it is a partial function: \<open>None\<close> is
  "does not return". The variable \<^verbatim>\<open>total\<close> is \<open>tot\<close> here.
\<close>

partial_function (option) py_sum_list_loop ::
  "int \<Rightarrow> addr option \<Rightarrow> heap \<Rightarrow> (int \<times> heap) option" where
  "py_sum_list_loop tot current h =
     (case current of
        None \<Rightarrow> Some (tot, h)
      | Some a \<Rightarrow>
          (case load_value a h of (v, h1) \<Rightarrow>
             (case load_next a h1 of (nx, h2) \<Rightarrow>
                py_sum_list_loop (tot + v) nx h2)))"

definition py_sum_list :: "addr option \<Rightarrow> heap \<Rightarrow> (int \<times> heap) option" where
  "py_sum_list head h = py_sum_list_loop 0 head h"

subsection \<open>\<^verbatim>\<open>python_sum_list\<close> (bench.py)\<close>

text \<open>The same loop, reading the attributes through the node class of the instance.\<close>

partial_function (option) python_sum_list_loop ::
  "('r, 'w) node_class \<Rightarrow> int \<Rightarrow> 'r option \<Rightarrow> 'w \<Rightarrow> (int \<times> 'w) option" where
  "python_sum_list_loop cls tot current w =
     (case current of
        None \<Rightarrow> Some (tot, w)
      | Some a \<Rightarrow>
          (case get_value cls a w of (v, w1) \<Rightarrow>
             (case get_next cls a w1 of (nx, w2) \<Rightarrow>
                python_sum_list_loop cls (tot + v) nx w2)))"

definition python_sum_list ::
  "('r, 'w) node_class \<Rightarrow> 'r option \<Rightarrow> 'w \<Rightarrow> (int \<times> 'w) option" where
  "python_sum_list cls head w = python_sum_list_loop cls 0 head w"

subsection \<open>\<^verbatim>\<open>build_list\<close> (bench.py)\<close>

text \<open>
  \<^verbatim>\<open>
  assert n > 0, f"List length must be positive, got {n}"
  head = NodeClass(value=n - 1, next=None)
  for i in range(n - 2, -1, -1):
      head = NodeClass(value=i, next=head)
  return head
  \<close>
  \<open>build_list_loop\<close> is the for loop: \<^verbatim>\<open>range(n - 2, -1, -1)\<close> yields
  \<open>i\<close> while \<open>i > -1\<close>, counting down.
\<close>

function build_list_loop ::
  "('r, 'w) node_class \<Rightarrow> 'r \<Rightarrow> int \<Rightarrow> 'w \<Rightarrow> 'r \<times> 'w" where
  "build_list_loop NodeClass head i w =
     (if i > -1
      then (case construct NodeClass i (Some head) w of
              (head', w') \<Rightarrow> build_list_loop NodeClass head' (i - 1) w')
      else (head, w))"
  by pat_completeness auto
termination
  by (relation "measure (\<lambda>(NodeClass, head, i, w). nat (i + 1))") auto

definition build_list ::
  "('r, 'w) node_class \<Rightarrow> int \<Rightarrow> 'w \<Rightarrow> (error + 'r) \<times> 'w" where
  "build_list NodeClass n w =
     (if n > 0
      then (case construct NodeClass (n - 1) None w of
              (head, w1) \<Rightarrow>
                (case build_list_loop NodeClass head (n - 2) w1 of
                   (head', w2) \<Rightarrow> (Inr head', w2)))
      else (Inl (ListLengthNotPositive n), w))"


subsection \<open>Describing a list in the store\<close>

text \<open>
  \<open>chain h cur as\<close>: starting at the reference \<open>cur\<close> and following \<^verbatim>\<open>.next\<close>,
  the nodes visited are exactly those at the addresses \<open>as\<close>, in this order, and
  after the last one comes None. \<open>values_of h as\<close> are the \<^verbatim>\<open>.value\<close> fields
  of these nodes. A list is acyclic when no address occurs twice in \<open>as\<close>.
\<close>

fun chain :: "heap \<Rightarrow> addr option \<Rightarrow> addr list \<Rightarrow> bool" where
  "chain h cur [] = (cur = None)"
| "chain h cur (a # as) = (cur = Some a \<and> chain h (node_next (cells h a)) as)"

definition values_of :: "heap \<Rightarrow> addr list \<Rightarrow> int list" where
  "values_of h as = map (\<lambda>a. node_value (cells h a)) as"

text \<open>A store with no node yet, and the store holding the list 0, 1, 2 with head 2.\<close>

definition empty_heap :: heap where
  "empty_heap = \<lparr>cells = (\<lambda>a. \<lparr>node_value = 0, node_next = None\<rparr>), fresh = 0\<rparr>"

definition three_nodes :: heap where
  "three_nodes = snd (build_list PyNode 3 empty_heap)"

subsection \<open>\<^verbatim>\<open>bench\<close> (bench.py)\<close>

text \<open>
  \<^verbatim>\<open>
  assert iterations > 0, f"Iterations must be positive, got {iterations}"
  assert callable(fn), f"fn must be callable, got {type(fn)}"
  for _ in range(1000):
      fn(head)
  t0 = time.perf_counter_ns()
  for _ in range(iterations):
      fn(head)
  elapsed_ns = time.perf_counter_ns() - t0
  ns_per = elapsed_ns / iterations
  print(f"{label:40s}  {ns_per:8.0f} ns/traversal")
  return ns_per
  \<close>
  The clock and the standard output are outside the program: \<open>bench\<close> takes them as a
  runtime over a world \<open>'w\<close>. What is printed is kept as a value (a line with its label
  and its number), not as formatted text. The quotient \<^verbatim>\<open>elapsed_ns / iterations\<close> is
  the exact rational; Python rounds it to the nearest float.

  The argument \<^verbatim>\<open>fn\<close> is an object that is callable or not. A callable takes the
  head and the world, and returns its result and the world after the call, or does not
  return (\<open>None\<close>); a callable that raises is not modelled. \<open>call_discard\<close> is the
  statement \<^verbatim>\<open>fn(head)\<close>, which drops the result, and \<open>for_range k\<close> is
  \<^verbatim>\<open>for _ in range(k)\<close>.
\<close>

datatype out_line =
    Text string
  | BenchLine string rat
  | EnvLine string string
  | CorrectnessLine int int
  | SizeLine int int
  | RatioLine string rat
  | OverheadLine rat rat

record 'w runtime =
  perf_counter_ns :: "'w \<Rightarrow> int \<times> 'w"
  print :: "out_line \<Rightarrow> 'w \<Rightarrow> 'w"

datatype ('h, 'v, 'w) py_object = Callable "'h \<Rightarrow> 'w \<Rightarrow> ('v \<times> 'w) option" | NotCallable

fun for_range :: "nat \<Rightarrow> ('w \<Rightarrow> 'w option) \<Rightarrow> 'w \<Rightarrow> 'w option" where
  "for_range 0 body w = Some w"
| "for_range (Suc k) body w =
     (case body w of None \<Rightarrow> None | Some w' \<Rightarrow> for_range k body w')"

definition call_discard :: "('h \<Rightarrow> 'w \<Rightarrow> ('v \<times> 'w) option) \<Rightarrow> 'h \<Rightarrow> 'w \<Rightarrow> 'w option" where
  "call_discard f head w = (case f head w of None \<Rightarrow> None | Some (v, w') \<Rightarrow> Some w')"

definition bench ::
  "'w runtime \<Rightarrow> string \<Rightarrow> ('h, 'v, 'w) py_object \<Rightarrow> 'h \<Rightarrow> int \<Rightarrow> 'w \<Rightarrow>
     ((error + rat) \<times> 'w) option" where
  "bench rt label fn head iterations w =
     (if iterations > 0
      then (case fn of
              NotCallable \<Rightarrow> Some (Inl FnNotCallable, w)
            | Callable f \<Rightarrow>
                (case for_range 1000 (call_discard f head) w of
                   None \<Rightarrow> None
                 | Some w1 \<Rightarrow>
                     (case perf_counter_ns rt w1 of (t0, w2) \<Rightarrow>
                        (case for_range (nat iterations) (call_discard f head) w2 of
                           None \<Rightarrow> None
                         | Some w3 \<Rightarrow>
                             (case perf_counter_ns rt w3 of (t1, w4) \<Rightarrow>
                                (let elapsed_ns = t1 - t0;
                                     ns_per = rat_of_int elapsed_ns / rat_of_int iterations
                                 in Some (Inr ns_per,
                                          print rt (BenchLine label ns_per) w4)))))))
      else Some (Inl (IterationsNotPositive iterations), w))"

text \<open>
  Observing a run. A traced world carries the list of events so far: \<open>traced_rt\<close> logs
  every clock reading and every printed line, \<open>traced f\<close> logs every call of \<open>f\<close>.
  Neither changes what the runtime or \<open>f\<close> do.
\<close>

datatype event = Call | ClockRead int | Printed out_line

definition traced_rt :: "'w runtime \<Rightarrow> ('w \<times> event list) runtime" where
  "traced_rt rt =
     \<lparr>perf_counter_ns = (\<lambda>(w, tr). case perf_counter_ns rt w of
                                      (t, w') \<Rightarrow> (t, (w', tr @ [ClockRead t]))),
      print = (\<lambda>l (w, tr). (print rt l w, tr @ [Printed l]))\<rparr>"


text \<open>A runtime whose clock advances by 1000 at every reading, and a function that returns at once.\<close>

definition tick_rt :: "nat runtime" where
  "tick_rt = \<lparr>perf_counter_ns = (\<lambda>n. (1000 * int n, Suc n)), print = (\<lambda>l n. n)\<rparr>"

definition stub :: "unit \<Rightarrow> nat \<Rightarrow> (int \<times> nat) option" where
  "stub head n = Some (0, n)"

subsection \<open>\<^verbatim>\<open>main\<close> (bench.py)\<close>

text \<open>The module constants: the list length and the number of timed iterations.\<close>

definition N :: int where "N = 1000"
definition M :: int where "M = 100000"

text \<open>
  \<^verbatim>\<open>main\<close> works with three modules, each giving a node class and a native
  \<^verbatim>\<open>sum_list\<close> function: \<^verbatim>\<open>python_node\<close>, and the extension modules
  \<^verbatim>\<open>c_node\<close> and \<^verbatim>\<open>rust_node\<close>, whose sources are not part of the repository.
  The model of \<^verbatim>\<open>main\<close> takes the three modules as parameters over one world;
  \<open>python_node\<close> is the first of them over a world that is just the store of PyNode
  instances.
\<close>

record ('r, 'w) node_module =
  Node :: "('r, 'w) node_class"
  native_sum_list :: "'r option \<Rightarrow> 'w \<Rightarrow> (int \<times> 'w) option"

definition python_node :: "(addr, heap) node_module" where
  "python_node = \<lparr>Node = PyNode, native_sum_list = py_sum_list\<rparr>"

text \<open>
  What the environment probe reports (the interpreter's version, the platform, and the
  first lines of \<^verbatim>\<open>cc --version\<close> and \<^verbatim>\<open>rustc --version\<close>, or \<^verbatim>\<open>unknown\<close>):
  four strings given to \<open>main\<close>.
\<close>

record env_info =
  python_version :: string
  platform_name :: string
  cc_version :: string
  rust_version :: string

definition print_all :: "'w runtime \<Rightarrow> out_line list \<Rightarrow> 'w \<Rightarrow> 'w" where
  "print_all rt ls w = foldl (\<lambda>w l. print rt l w) w ls"

text \<open>
  A step of \<^verbatim>\<open>main\<close> does not return (\<open>None\<close>), raises (\<open>Inl\<close>), or returns a
  value and the world after it. \<open>bind_r m k\<close> runs \<open>k\<close> after \<open>m\<close> when \<open>m\<close>
  returned a value; when \<open>m\<close> raised, the exception ends the run there.
\<close>

definition bind_r ::
  "((error + 'a) \<times> 'w) option \<Rightarrow> ('a \<Rightarrow> 'w \<Rightarrow> ((error + 'b) \<times> 'w) option) \<Rightarrow>
     ((error + 'b) \<times> 'w) option" where
  "bind_r m k =
     (case m of
        None \<Rightarrow> None
      | Some (Inl e, w) \<Rightarrow> Some (Inl e, w)
      | Some (Inr a, w) \<Rightarrow> k a w)"

text \<open>
  One line of the correctness verification:
  \<^verbatim>\<open>assert f(lst) == expected, f"... wrong: {f(lst)} != {expected}"\<close>. The message is
  built only when the assertion fails, and calls \<^verbatim>\<open>f\<close> again. \<open>verify\<close> is the
  six assertions in the order of the source.
\<close>

definition assert_sum ::
  "string \<Rightarrow> ('w \<Rightarrow> (int \<times> 'w) option) \<Rightarrow> int \<Rightarrow> 'w \<Rightarrow> ((error + unit) \<times> 'w) option" where
  "assert_sum name f expected w =
     (case f w of
        None \<Rightarrow> None
      | Some (v, w1) \<Rightarrow>
          if v = expected then Some (Inr (), w1)
          else (case f w1 of
                  None \<Rightarrow> None
                | Some (v', w2) \<Rightarrow> Some (Inl (SumWrong name v' expected), w2)))"

definition verify ::
  "('a, 'w) node_module \<Rightarrow> ('b, 'w) node_module \<Rightarrow> ('c, 'w) node_module \<Rightarrow>
     'a \<Rightarrow> 'b \<Rightarrow> 'c \<Rightarrow> int \<Rightarrow> 'w \<Rightarrow> ((error + unit) \<times> 'w) option" where
  "verify py c rust py_list c_list rust_list expected w =
     bind_r (assert_sum ''py_sum_list'' (native_sum_list py (Some py_list)) expected w) (\<lambda>_ w.
     bind_r (assert_sum ''c_sum_list'' (native_sum_list c (Some c_list)) expected w) (\<lambda>_ w.
     bind_r (assert_sum ''rust_sum_list'' (native_sum_list rust (Some rust_list)) expected w) (\<lambda>_ w.
     bind_r (assert_sum ''python_sum_list(py)''
               (python_sum_list (Node py) (Some py_list)) expected w) (\<lambda>_ w.
     bind_r (assert_sum ''python_sum_list(c)''
               (python_sum_list (Node c) (Some c_list)) expected w) (\<lambda>_ w.
     assert_sum ''python_sum_list(rust)''
       (python_sum_list (Node rust) (Some rust_list)) expected w)))))"

text \<open>The banner and the environment lines, printed before the lists are built.\<close>

definition preamble :: "env_info \<Rightarrow> out_line list" where
  "preamble env =
     [Text (replicate 60 CHR ''=''), Text ''Boundary Crossing Benchmark'',
      Text (replicate 60 CHR ''=''),
      EnvLine ''Python:   '' (python_version env),
      EnvLine ''Platform: '' (platform_name env),
      EnvLine ''CC:       '' (cc_version env),
      EnvLine ''Rust:     '' (rust_version env),
      Text '''']"

text \<open>
  The falsification check at the end of \<^verbatim>\<open>main\<close>:
  \<^verbatim>\<open>
  print("\n--- Falsification ---")
  if rust_native < c_native:
      print("UNEXPECTED: Rust native FASTER than C native.")
      print("The PyO3 boundary-crossing hypothesis is WRONG for this workload.")
  else:
      overhead_ns = (rust_native - c_native) / N
      print(f"Rust native slower than C native by "
            f"{rust_native - c_native:.0f} ns/traversal "
            f"({overhead_ns:.1f} ns/node).")
      print("Consistent with PyO3 extract/borrow overhead per node.")
  \<close>
  The timings are floats in the source and exact rationals here.
\<close>

definition falsification :: "'w runtime \<Rightarrow> rat \<Rightarrow> rat \<Rightarrow> 'w \<Rightarrow> 'w" where
  "falsification rt rust_native c_native w =
     (let w = print rt (Text ''\<newline>--- Falsification ---'') w in
      if rust_native < c_native
      then print_all rt
             [Text ''UNEXPECTED: Rust native FASTER than C native.'',
              Text ''The PyO3 boundary-crossing hypothesis is WRONG for this workload.''] w
      else (let overhead_ns = (rust_native - c_native) / rat_of_int N in
            print_all rt
              [OverheadLine (rust_native - c_native) overhead_ns,
               Text ''Consistent with PyO3 extract/borrow overhead per node.''] w))"

text \<open>
  The five ratios, each a timing divided by \<^verbatim>\<open>c_native\<close>. The first division raises
  ZeroDivisionError when \<^verbatim>\<open>c_native\<close> is 0.0, after the heading has been printed.
\<close>

definition ratios ::
  "'w runtime \<Rightarrow> rat \<Rightarrow> rat \<Rightarrow> rat \<Rightarrow> rat \<Rightarrow> rat \<Rightarrow> rat \<Rightarrow> 'w \<Rightarrow>
     ((error + unit) \<times> 'w) option" where
  "ratios rt py_native c_native rust_native py_cross c_cross rust_cross w =
     (let w = print rt (Text ''\<newline>--- Ratios (relative to C native) ---'') w in
      if c_native = 0 then Some (Inl ZeroDivisionError, w)
      else Some (Inr (),
             print_all rt
               [RatioLine ''  Python native / C native:  '' (py_native / c_native),
                RatioLine ''  Rust native / C native:    '' (rust_native / c_native),
                RatioLine ''  Python cross / C native:   '' (py_cross / c_native),
                RatioLine ''  C cross / C native:        '' (c_cross / c_native),
                RatioLine ''  Rust cross / C native:     '' (rust_cross / c_native)] w))"

text \<open>
  \<^verbatim>\<open>main\<close>: the environment lines, the three lists, the correctness verification,
  and then, as \<open>report\<close>, everything from the correctness line on: the six timings, the
  ratios and the falsification check.
\<close>

definition report ::
  "'w runtime \<Rightarrow> ('a, 'w) node_module \<Rightarrow> ('b, 'w) node_module \<Rightarrow> ('c, 'w) node_module \<Rightarrow>
     'a \<Rightarrow> 'b \<Rightarrow> 'c \<Rightarrow> int \<Rightarrow> 'w \<Rightarrow> ((error + unit) \<times> 'w) option" where
  "report rt py c rust py_list c_list rust_list expected w =
     (let w = print_all rt
                [CorrectnessLine expected (N - 1), Text '''', SizeLine N M,
                 Text ''Benchmark                                   ns/traversal'',
                 Text (replicate 56 CHR ''-''),
                 Text ''\<newline>--- Native (loop + data in same language) ---''] w in
      bind_r (bench rt ''Python loop, Python nodes''
                (Callable (native_sum_list py)) (Some py_list) M w) (\<lambda>py_native w.
      bind_r (bench rt ''C loop, C nodes''
                (Callable (native_sum_list c)) (Some c_list) M w) (\<lambda>c_native w.
      bind_r (bench rt ''Rust loop, Rust nodes''
                (Callable (native_sum_list rust)) (Some rust_list) M w) (\<lambda>rust_native w.
      let w = print rt (Text ''\<newline>--- Python loop, different node types ---'') w in
      bind_r (bench rt ''Python loop, Python nodes''
                (Callable (python_sum_list (Node py))) (Some py_list) M w) (\<lambda>py_cross w.
      bind_r (bench rt ''Python loop, C nodes''
                (Callable (python_sum_list (Node c))) (Some c_list) M w) (\<lambda>c_cross w.
      bind_r (bench rt ''Python loop, Rust nodes''
                (Callable (python_sum_list (Node rust))) (Some rust_list) M w) (\<lambda>rust_cross w.
      bind_r (ratios rt py_native c_native rust_native py_cross c_cross rust_cross w) (\<lambda>_ w.
      Some (Inr (), falsification rt rust_native c_native w)))))))))"

definition main ::
  "'w runtime \<Rightarrow> env_info \<Rightarrow> ('a, 'w) node_module \<Rightarrow> ('b, 'w) node_module \<Rightarrow>
     ('c, 'w) node_module \<Rightarrow> 'w \<Rightarrow> ((error + unit) \<times> 'w) option" where
  "main rt env py c rust w =
     (let w = print_all rt (preamble env) w in
      bind_r (Some (build_list (Node py) N w)) (\<lambda>py_list w.
      bind_r (Some (build_list (Node c) N w)) (\<lambda>c_list w.
      bind_r (Some (build_list (Node rust) N w)) (\<lambda>rust_list w.
      let expected = N * (N - 1) div 2 in
      bind_r (verify py c rust py_list c_list rust_list expected w) (\<lambda>_ w.
      report rt py c rust py_list c_list rust_list expected w)))))"

text \<open>
  For observing a run of \<^verbatim>\<open>main\<close>, the modules are put over the traced world:
  a lifted operation works on the world and leaves the log alone, which \<open>keeps_trace\<close>
  says of a function.
\<close>

definition lift :: "('w \<Rightarrow> 'a \<times> 'w) \<Rightarrow> 'w \<times> 't \<Rightarrow> 'a \<times> 'w \<times> 't" where
  "lift f = (\<lambda>(w, t). case f w of (a, w') \<Rightarrow> (a, (w', t)))"

definition lift_opt :: "('w \<Rightarrow> ('a \<times> 'w) option) \<Rightarrow> 'w \<times> 't \<Rightarrow> ('a \<times> 'w \<times> 't) option" where
  "lift_opt f = (\<lambda>(w, t). case f w of None \<Rightarrow> None | Some (a, w') \<Rightarrow> Some (a, (w', t)))"

definition lift_class :: "('r, 'w) node_class \<Rightarrow> ('r, 'w \<times> 't) node_class" where
  "lift_class cls =
     \<lparr>construct = (\<lambda>v nx. lift (construct cls v nx)),
      get_value = (\<lambda>r. lift (get_value cls r)),
      get_next = (\<lambda>r. lift (get_next cls r))\<rparr>"

definition lift_module :: "('r, 'w) node_module \<Rightarrow> ('r, 'w \<times> 't) node_module" where
  "lift_module m =
     \<lparr>Node = lift_class (Node m),
      native_sum_list = (\<lambda>head. lift_opt (native_sum_list m head))\<rparr>"

definition keeps_trace :: "('w \<times> 't \<Rightarrow> ('a \<times> 'w \<times> 't) option) \<Rightarrow> bool" where
  "keeps_trace f = (\<forall>w tr v wt. f (w, tr) = Some (v, wt) \<longrightarrow> snd wt = tr)"

text \<open>
  For running \<^verbatim>\<open>main\<close> on concrete inputs: a module whose nodes all carry \<open>v\<close> and
  have no successor, and whose native \<^verbatim>\<open>sum_list\<close> returns \<open>s\<close> (it stands for an
  extension module, right or wrong); a runtime whose clock replays a list of readings,
  the world being the readings still to come; and an environment report.
\<close>

definition stub_module :: "int \<Rightarrow> int \<Rightarrow> (unit, 'w) node_module" where
  "stub_module s v =
     \<lparr>Node = \<lparr>construct = (\<lambda>x nx w. ((), w)), get_value = (\<lambda>r w. (v, w)),
              get_next = (\<lambda>r w. (None, w))\<rparr>,
      native_sum_list = (\<lambda>head w. Some (s, w))\<rparr>"

definition replay_rt :: "int list runtime" where
  "replay_rt =
     \<lparr>perf_counter_ns = (\<lambda>ts. case ts of [] \<Rightarrow> (0, []) | t # ts' \<Rightarrow> (t, ts')),
      print = (\<lambda>l ts. ts)\<rparr>"

definition env0 :: env_info where
  "env0 = \<lparr>python_version = ''3.12'', platform_name = ''Linux'', cc_version = ''unknown'',
           rust_version = ''unknown''\<rparr>"

section \<open>Properties of the traversals\<close>

lemma py_sum_list_loop_None: "py_sum_list_loop tot None h = Some (tot, h)"
  by (subst py_sum_list_loop.simps) simp

lemma py_sum_list_loop_Some:
  "py_sum_list_loop tot (Some a) h =
     py_sum_list_loop (tot + node_value (cells h a)) (node_next (cells h a)) h"
  by (subst py_sum_list_loop.simps) (simp add: load_value_def load_next_def)

lemma python_sum_list_loop_None: "python_sum_list_loop cls tot None w = Some (tot, w)"
  by (subst python_sum_list_loop.simps) simp

lemma python_sum_list_loop_PyNode_Some:
  "python_sum_list_loop PyNode tot (Some a) h =
     python_sum_list_loop PyNode (tot + node_value (cells h a)) (node_next (cells h a)) h"
  by (subst python_sum_list_loop.simps) (simp add: PyNode_def load_value_def load_next_def)

text \<open>
  C9: both traversals return 0 on an absent head (and leave the store as it is):
  \<^verbatim>\<open>py_sum_list(None) == 0\<close> and \<^verbatim>\<open>python_sum_list(None) == 0\<close>, the latter
  whatever the node class.
\<close>

theorem sum_list_absent_head:
  "py_sum_list None h = Some (0, h) \<and> python_sum_list cls None w = Some (0, w)"
  by (simp add: py_sum_list_def python_sum_list_def py_sum_list_loop_None
      python_sum_list_loop_None)


text \<open>
  The two loops are the same partial function: whenever one returns, so does the other,
  with the same result. Each direction is by fixpoint induction on the loop that returns.
\<close>

lemma py_le_python:
  assumes "py_sum_list_loop tot current h = Some y"
  shows "python_sum_list_loop PyNode tot current h = Some y"
proof (rule py_sum_list_loop.raw_induct
    [where P = "\<lambda>tot current h y. python_sum_list_loop PyNode tot current h = Some y"])
  show "py_sum_list_loop tot current h = Some y" by fact
next
  fix loop :: "int \<Rightarrow> addr option \<Rightarrow> heap \<Rightarrow> (int \<times> heap) option"
  fix tot current h y
  assume IH: "\<And>t c h y. loop t c h = Some y \<Longrightarrow> python_sum_list_loop PyNode t c h = Some y"
  assume step: "(case current of None \<Rightarrow> Some (tot, h)
      | Some a \<Rightarrow>
          case load_value a h of
          (v, h1) \<Rightarrow>
            case load_next a h1 of
            (nx, h2) \<Rightarrow> loop (tot + v) nx h2) = Some y"
  show "python_sum_list_loop PyNode tot current h = Some y"
  proof (cases current)
    case None
    with step show ?thesis by (simp add: python_sum_list_loop_None)
  next
    case (Some a)
    with step have "loop (tot + node_value (cells h a)) (node_next (cells h a)) h = Some y"
      by (simp add: load_value_def load_next_def)
    then have "python_sum_list_loop PyNode (tot + node_value (cells h a)) (node_next (cells h a)) h = Some y"
      by (rule IH)
    with Some show ?thesis by (simp add: python_sum_list_loop_PyNode_Some)
  qed
qed

lemma python_le_py_aux:
  assumes "python_sum_list_loop cls tot current h = Some y"
  shows "cls = PyNode \<longrightarrow> py_sum_list_loop tot current h = Some y"
proof (rule python_sum_list_loop.raw_induct
    [where P = "\<lambda>cls tot current h y. cls = PyNode \<longrightarrow> py_sum_list_loop tot current h = Some y"])
  show "python_sum_list_loop cls tot current h = Some y" by fact
next
  fix loop :: "(addr, heap) node_class \<Rightarrow> int \<Rightarrow> addr option \<Rightarrow> heap \<Rightarrow> (int \<times> heap) option"
  fix cls tot current h y
  assume IH: "\<And>cls t c h y. loop cls t c h = Some y \<Longrightarrow> cls = PyNode \<longrightarrow> py_sum_list_loop t c h = Some y"
  assume step: "(case current of None \<Rightarrow> Some (tot, h)
      | Some a \<Rightarrow>
          case get_value cls a h of
          (v, h1) \<Rightarrow>
            case get_next cls a h1 of
            (nx, h2) \<Rightarrow> loop cls (tot + v) nx h2) = Some y"
  show "cls = PyNode \<longrightarrow> py_sum_list_loop tot current h = Some y"
  proof
    assume cls: "cls = PyNode"
    show "py_sum_list_loop tot current h = Some y"
    proof (cases current)
      case None
      with step show ?thesis by (simp add: py_sum_list_loop_None)
    next
      case (Some a)
      with step cls have "loop PyNode (tot + node_value (cells h a)) (node_next (cells h a)) h = Some y"
        by (simp add: load_value_def load_next_def PyNode_def)
      then have "py_sum_list_loop (tot + node_value (cells h a)) (node_next (cells h a)) h = Some y"
        using IH by blast
      with Some show ?thesis by (simp add: py_sum_list_loop_Some)
    qed
  qed
qed

lemma loops_equal: "python_sum_list_loop PyNode tot current h = py_sum_list_loop tot current h"
proof (cases "py_sum_list_loop tot current h")
  case None
  then show ?thesis using python_le_py_aux [of PyNode tot current h]
    by (cases "python_sum_list_loop PyNode tot current h") auto
next
  case (Some y)
  then show ?thesis by (simp add: py_le_python)
qed

text \<open>
  C8: \<^verbatim>\<open>python_sum_list\<close> on PyNode instances and \<^verbatim>\<open>py_sum_list\<close> are
  extensionally equal, for every head (None included) in every store: they return the same
  sum and the same store, or neither returns.
\<close>

theorem python_sum_list_eq_py_sum_list:
  "python_sum_list PyNode head h = py_sum_list head h"
  by (simp add: python_sum_list_def py_sum_list_def loops_equal)

lemma py_frame:
  assumes "py_sum_list_loop tot current h = Some y"
  shows "snd y = h"
proof (rule py_sum_list_loop.raw_induct [where P = "\<lambda>tot current h y. snd y = h"])
  show "py_sum_list_loop tot current h = Some y" by fact
next
  fix loop :: "int \<Rightarrow> addr option \<Rightarrow> heap \<Rightarrow> (int \<times> heap) option"
  fix tot current h y
  assume IH: "\<And>t c h y. loop t c h = Some y \<Longrightarrow> snd y = h"
  assume step: "(case current of None \<Rightarrow> Some (tot, h)
      | Some a \<Rightarrow>
          case load_value a h of
          (v, h1) \<Rightarrow>
            case load_next a h1 of
            (nx, h2) \<Rightarrow> loop (tot + v) nx h2) = Some y"
  show "snd y = h"
  proof (cases current)
    case None
    with step show ?thesis by auto
  next
    case (Some a)
    with step have "loop (tot + node_value (cells h a)) (node_next (cells h a)) h = Some y"
      by (simp add: load_value_def load_next_def)
    then show ?thesis by (rule IH)
  qed
qed

lemma py_chain:
  "chain h cur as \<Longrightarrow>
   py_sum_list_loop tot cur h = Some (tot + sum_list (values_of h as), h)"
  by (induction as arbitrary: tot cur)
    (auto simp: py_sum_list_loop_None py_sum_list_loop_Some values_of_def)



subsection \<open>The list built by \<^verbatim>\<open>build_list\<close>\<close>

lemma chain_alloc:
  "chain h cur as \<Longrightarrow> \<forall>a\<in>set as. a < fresh h \<Longrightarrow>
   chain (snd (new_PyNode v nx h)) cur as"
  by (induction as arbitrary: cur) (auto simp: new_PyNode_def)

lemma values_of_alloc:
  "\<forall>a\<in>set as. a < fresh h \<Longrightarrow> values_of (snd (new_PyNode v nx h)) as = values_of h as"
  by (induction as) (auto simp: new_PyNode_def values_of_def)

lemma chain_last: "chain h cur as \<Longrightarrow> as \<noteq> [] \<Longrightarrow> node_next (cells h (last as)) = None"
  by (induction as arbitrary: cur) (auto split: if_splits)

lemma build_list_loop_PyNode:
  assumes "chain h (Some head) as" and "\<forall>a\<in>set as. a < fresh h" and "distinct as"
    and "i = int k - 1"
  shows "\<exists>head' h' bs. build_list_loop PyNode head i h = (head', h') \<and>
           chain h' (Some head') (bs @ as) \<and> distinct (bs @ as) \<and>
           (\<forall>a\<in>set (bs @ as). a < fresh h') \<and> length bs = k \<and>
           values_of h' (bs @ as) = [0..i] @ values_of h as"
  using assms
proof (induction k arbitrary: head h as i)
  case 0
  then have "build_list_loop PyNode head i h = (head, h)" by simp
  with 0 show ?case by auto
next
  case (Suc k)
  define h1 where "h1 = snd (new_PyNode i (Some head) h)"
  have i: "0 \<le> i" "i - 1 = int k - 1" using Suc.prems(4) by auto
  have new: "new_PyNode i (Some head) h = (fresh h, h1)"
    by (simp add: h1_def new_PyNode_def)
  have fr: "fresh h1 = Suc (fresh h)" by (simp add: h1_def new_PyNode_def)
  have cell: "cells h1 (fresh h) = \<lparr>node_value = i, node_next = Some head\<rparr>"
    by (simp add: h1_def new_PyNode_def)
  have ch: "chain h1 (Some head) as"
    unfolding h1_def using Suc.prems(1,2) by (rule chain_alloc)
  have vs: "values_of h1 as = values_of h as"
    unfolding h1_def using Suc.prems(2) by (rule values_of_alloc)
  have 1: "chain h1 (Some (fresh h)) (fresh h # as)" using ch cell by simp
  have 2: "\<forall>a\<in>set (fresh h # as). a < fresh h1" using Suc.prems(2) fr by auto
  have 3: "distinct (fresh h # as)" using Suc.prems(2,3) by auto
  from Suc.IH [OF 1 2 3 i(2)] obtain head' h' bs where
    r: "build_list_loop PyNode (fresh h) (i - 1) h1 = (head', h')"
    and c: "chain h' (Some head') (bs @ fresh h # as)"
    and d: "distinct (bs @ fresh h # as)"
    and b: "\<forall>a\<in>set (bs @ fresh h # as). a < fresh h'"
    and l: "length bs = k"
    and v: "values_of h' (bs @ fresh h # as) = [0..i - 1] @ values_of h1 (fresh h # as)"
    by blast
  have loop: "build_list_loop PyNode head i h = (head', h')"
    using i(1) new r by (subst build_list_loop.simps) (simp add: PyNode_def)
  have up: "[0..i] = [0..i - 1] @ [i]" using i(1) by (simp add: upto_rec2)
  have v': "values_of h' ((bs @ [fresh h]) @ as) = [0..i] @ values_of h as"
    using v vs cell up by (simp add: values_of_def)
  show ?case
    apply (rule exI [of _ head'], rule exI [of _ h'], rule exI [of _ "bs @ [fresh h]"])
    using loop c d b l v' by simp
qed

lemma build_list_PyNode:
  assumes "0 < n"
  shows "\<exists>head h' as. build_list PyNode n h = (Inr head, h') \<and>
           chain h' (Some head) as \<and> distinct as \<and> int (length as) = n \<and>
           values_of h' as = [0..n - 1]"
proof -
  define h1 where "h1 = snd (new_PyNode (n - 1) None h)"
  have new: "new_PyNode (n - 1) None h = (fresh h, h1)"
    by (simp add: h1_def new_PyNode_def)
  have 1: "chain h1 (Some (fresh h)) [fresh h]" by (simp add: h1_def new_PyNode_def)
  have 2: "\<forall>a\<in>set [fresh h]. a < fresh h1" by (simp add: h1_def new_PyNode_def)
  have 3: "distinct [fresh h]" by simp
  have 4: "n - 2 = int (nat (n - 1)) - 1" using assms by simp
  have v1: "values_of h1 [fresh h] = [n - 1]" by (simp add: h1_def new_PyNode_def values_of_def)
  from build_list_loop_PyNode [OF 1 2 3 4] obtain head' h' bs where
    r: "build_list_loop PyNode (fresh h) (n - 2) h1 = (head', h')"
    and c: "chain h' (Some head') (bs @ [fresh h])"
    and d: "distinct (bs @ [fresh h])"
    and l: "length bs = nat (n - 1)"
    and v: "values_of h' (bs @ [fresh h]) = [0..n - 2] @ values_of h1 [fresh h]"
    by blast
  have b: "build_list PyNode n h = (Inr head', h')"
    using assms new r by (simp add: build_list_def PyNode_def)
  have up: "[0..n - 1] = [0..n - 2] @ [n - 1]" using assms upto_rec2 [of 0 "n - 1"] by simp
  have len: "int (length (bs @ [fresh h])) = n" using l assms by simp
  show ?thesis
    apply (rule exI [of _ head'], rule exI [of _ h'], rule exI [of _ "bs @ [fresh h]"])
    using b c d len v v1 up by simp
qed

lemma sum_upto_closed: "m = int k - 1 \<Longrightarrow> 2 * sum_list [0..m] = m * (m + 1)"
proof (induction k arbitrary: m)
  case 0
  then show ?case by simp
next
  case (Suc k)
  then have m: "0 \<le> m" "m - 1 = int k - 1" by auto
  have "[0..m] = [0..m - 1] @ [m]" using m(1) by (simp add: upto_rec2)
  then have "2 * sum_list [0..m] = 2 * sum_list [0..m - 1] + 2 * m" by simp
  also have "\<dots> = (m - 1) * (m - 1 + 1) + 2 * m" using Suc.IH [OF m(2)] by simp
  also have "\<dots> = m * (m + 1)" by (simp add: algebra_simps)
  finally show ?case .
qed

lemma sum_upto_div: "0 < n \<Longrightarrow> sum_list [0..n - 1] = n * (n - 1) div 2"
proof -
  assume "0 < n"
  then have "n - 1 = int (nat n) - 1" by simp
  then have "2 * sum_list [0..n - 1] = (n - 1) * (n - 1 + 1)" by (rule sum_upto_closed)
  then have "2 * sum_list [0..n - 1] = n * (n - 1)" by (simp add: mult.commute)
  then show ?thesis by (metis nonzero_mult_div_cancel_left zero_neq_numeral)
qed

lemma three_nodes_cells:
  "cells three_nodes 2 = \<lparr>node_value = 0, node_next = Some 1\<rparr>"
  "cells three_nodes (Suc 0) = \<lparr>node_value = 1, node_next = Some 0\<rparr>"
  "cells three_nodes 0 = \<lparr>node_value = 2, node_next = None\<rparr>"
  by (simp_all add: three_nodes_def build_list_def PyNode_def new_PyNode_def empty_heap_def)

text \<open>
  C10: a traversal leaves the list unchanged. Whenever \<^verbatim>\<open>py_sum_list(head)\<close> or
  \<^verbatim>\<open>python_sum_list(head)\<close> (on PyNode instances) returns, the store after the call
  is the store before it, so every node has the \<^verbatim>\<open>value\<close> and \<^verbatim>\<open>next\<close> it had.
  And on a list that ends (a chain to None) both do return, with the sum of the values.
\<close>

theorem traversal_frame:
  "(py_sum_list head h = Some (s, h') \<longrightarrow> h' = h) \<and>
   (python_sum_list PyNode head h = Some (s, h') \<longrightarrow> h' = h) \<and>
   (chain h head as \<longrightarrow>
      py_sum_list head h = Some (sum_list (values_of h as), h) \<and>
      python_sum_list PyNode head h = Some (sum_list (values_of h as), h))"
proof -
  have "py_sum_list head h = Some (s, h') \<Longrightarrow> h' = h"
    using py_frame [of 0 head h "(s, h')"] by (simp add: py_sum_list_def)
  moreover have "chain h head as \<Longrightarrow> py_sum_list head h = Some (sum_list (values_of h as), h)"
    using py_chain [of h head as 0] by (simp add: py_sum_list_def)
  ultimately show ?thesis
    by (simp add: python_sum_list_def py_sum_list_def loops_equal)
qed

theorem traversal_frame_witness:
  "chain three_nodes (Some 2) [2, 1, 0] \<and>
   py_sum_list (Some 2) three_nodes = Some (3, three_nodes) \<and>
   python_sum_list PyNode (Some 2) three_nodes = Some (3, three_nodes)"
  using traversal_frame [of "Some 2" three_nodes 3 three_nodes "[2, 1, 0]"]
  by (simp add: three_nodes_cells values_of_def)

text \<open>
  C1: for every \<open>n > 0\<close>, \<^verbatim>\<open>build_list(PyNode, n)\<close> returns a head on which both
  \<^verbatim>\<open>py_sum_list\<close> and \<^verbatim>\<open>python_sum_list\<close> return \<open>n * (n - 1) / 2\<close>
  (the division is exact; \<^verbatim>\<open>main\<close> computes it with \<^verbatim>\<open>//\<close>).
\<close>

theorem build_list_sum:
  assumes "0 < n"
  shows "\<exists>head h'. build_list PyNode n h = (Inr head, h') \<and>
           py_sum_list (Some head) h' = Some (n * (n - 1) div 2, h') \<and>
           python_sum_list PyNode (Some head) h' = Some (n * (n - 1) div 2, h')"
proof -
  from build_list_PyNode [OF assms, of h] obtain head h' as where
    b: "build_list PyNode n h = (Inr head, h')" and c: "chain h' (Some head) as"
    and v: "values_of h' as = [0..n - 1]"
    by blast
  have "py_sum_list_loop 0 (Some head) h' = Some (0 + sum_list (values_of h' as), h')"
    using c by (rule py_chain)
  then have "py_sum_list_loop 0 (Some head) h' = Some (n * (n - 1) div 2, h')"
    using v sum_upto_div [OF assms] by simp
  with b show ?thesis
    by (simp add: python_sum_list_def py_sum_list_def loops_equal)
qed

theorem build_list_sum_witness:
  "(0::int) < 5 \<and>
   (\<exists>head h'. build_list PyNode 5 empty_heap = (Inr head, h') \<and>
      py_sum_list (Some head) h' = Some (10, h') \<and>
      python_sum_list PyNode (Some head) h' = Some (10, h'))"
  using build_list_sum [of 5 empty_heap] by simp

text \<open>
  C2: for every \<open>n > 0\<close>, \<^verbatim>\<open>build_list(PyNode, n)\<close> returns the head of a list of
  exactly \<open>n\<close> nodes, singly linked through \<^verbatim>\<open>next\<close> (a chain), acyclic (no node
  occurs twice), whose values from head to tail are \<open>0, 1, ..., n - 1\<close>, and whose last
  node has \<^verbatim>\<open>next\<close> None.
\<close>

theorem build_list_shape:
  assumes "0 < n"
  shows "\<exists>head h' as. build_list PyNode n h = (Inr head, h') \<and>
           chain h' (Some head) as \<and> int (length as) = n \<and> distinct as \<and>
           values_of h' as = [0..n - 1] \<and> node_next (cells h' (last as)) = None"
proof -
  from build_list_PyNode [OF assms, of h] obtain head h' as where
    b: "build_list PyNode n h = (Inr head, h')" and c: "chain h' (Some head) as"
    and d: "distinct as" and l: "int (length as) = n"
    and v: "values_of h' as = [0..n - 1]"
    by blast
  from l assms have "as \<noteq> []" by auto
  with c have "node_next (cells h' (last as)) = None" by (rule chain_last)
  with b c d l v show ?thesis by blast
qed

theorem build_list_shape_witness:
  "(0::int) < 3 \<and>
   (\<exists>head h' as. build_list PyNode 3 empty_heap = (Inr head, h') \<and>
      chain h' (Some head) as \<and> length as = 3 \<and> distinct as \<and>
      values_of h' as = [0, 1, 2] \<and> node_next (cells h' (last as)) = None)"
  using build_list_shape [of 3 empty_heap] by (simp add: upto.simps)

text \<open>
  C6: for every \<open>n \<le> 0\<close>, \<^verbatim>\<open>build_list(NodeClass, n)\<close> fails on its assertion,
  whatever the node class, and the world is the one before the call: no node has been
  constructed (a node class that counts its constructions in the world would still show
  the count it had).
\<close>

theorem build_list_rejects:
  "n \<le> 0 \<Longrightarrow> build_list NodeClass n w = (Inl (ListLengthNotPositive n), w)"
  by (simp add: build_list_def)

theorem build_list_rejects_witness:
  "(0::int) \<le> 0 \<and> (-5::int) \<le> 0 \<and>
   build_list PyNode 0 empty_heap = (Inl (ListLengthNotPositive 0), empty_heap) \<and>
   build_list PyNode (-5) empty_heap = (Inl (ListLengthNotPositive (-5)), empty_heap)"
  using build_list_rejects [of 0 PyNode empty_heap] build_list_rejects [of "-5" PyNode empty_heap]
  by simp

section \<open>Properties of the bench runner\<close>





text \<open>
  C7: \<^verbatim>\<open>bench\<close> fails on its assertions when \<open>iterations \<le> 0\<close> or \<^verbatim>\<open>fn\<close>
  is not callable (the iteration count is checked first), and the world is the one before
  the call, whatever the runtime and \<^verbatim>\<open>fn\<close>: no call of \<^verbatim>\<open>fn\<close>, no clock
  reading, no output.
\<close>

theorem bench_rejects:
  "iterations \<le> 0 \<or> fn = NotCallable \<Longrightarrow>
   bench rt label fn head iterations w =
     Some (Inl (if iterations \<le> 0 then IterationsNotPositive iterations else FnNotCallable), w)"
  by (auto simp: bench_def)

theorem bench_rejects_witness:
  "bench tick_rt ''stub'' (Callable stub) () 0 0 = Some (Inl (IterationsNotPositive 0), 0) \<and>
   bench tick_rt ''stub'' (Callable stub) () (-3) 0 = Some (Inl (IterationsNotPositive (-3)), 0) \<and>
   bench tick_rt ''stub'' (NotCallable :: (unit, int, nat) py_object) () 5 0 =
     Some (Inl FnNotCallable, 0) \<and>
   bench tick_rt ''stub'' (NotCallable :: (unit, int, nat) py_object) () 0 0 =
     Some (Inl (IterationsNotPositive 0), 0)"
  using bench_rejects [of 0 "Callable stub" tick_rt "''stub''" "()" 0]
    bench_rejects [of "-3" "Callable stub" tick_rt "''stub''" "()" 0]
    bench_rejects [of 5 "NotCallable :: (unit, int, nat) py_object" tick_rt "''stub''" "()" 0]
    bench_rejects [of 0 "NotCallable :: (unit, int, nat) py_object" tick_rt "''stub''" "()" 0]
  by simp

section \<open>Properties of the report\<close>

lemma print_all_traced:
  "print_all (traced_rt rt) ls (w, tr) = (print_all rt ls w, tr @ map Printed ls)"
  by (induction ls arbitrary: w tr) (simp_all add: print_all_def traced_rt_def)

lemma print_traced: "print (traced_rt rt) l (w, tr) = (print rt l w, tr @ [Printed l])"
  by (simp add: traced_rt_def)

lemma perf_counter_traced:
  "perf_counter_ns (traced_rt rt) (w, tr) =
     (fst (perf_counter_ns rt w), (snd (perf_counter_ns rt w), tr @ [ClockRead (fst (perf_counter_ns rt w))]))"
  by (simp add: traced_rt_def split: prod.splits)

subsection \<open>Lifted operations\<close>

lemma build_list_loop_lift:
  "build_list_loop (lift_class cls) head i (w, tr) = lift (build_list_loop cls head i) (w, tr)"
proof (induction "nat (i + 1)" arbitrary: head i w)
  case 0
  then show ?case by (simp add: lift_def)
next
  case (Suc k)
  then have i: "i > -1" "k = nat (i - 1 + 1)" by auto
  obtain a w' where c: "construct cls i (Some head) w = (a, w')"
    by (cases "construct cls i (Some head) w")
  have 1: "build_list_loop (lift_class cls) head i (w, tr) =
        build_list_loop (lift_class cls) a (i - 1) (w', tr)"
    using i(1) c by (subst build_list_loop.simps) (simp add: lift_class_def lift_def)
  have 2: "build_list_loop cls head i w = build_list_loop cls a (i - 1) w'"
    using i(1) c by (subst build_list_loop.simps) simp
  show ?case unfolding 1 Suc.hyps(1) [OF i(2)]
    by (simp add: lift_def 2 del: build_list_loop.simps)
qed

lemma build_list_lift:
  "build_list (lift_class cls) n (w, tr) = lift (build_list cls n) (w, tr)"
proof (cases "n > 0")
  case True
  obtain a w' where c: "construct cls (n - 1) None w = (a, w')"
    by (cases "construct cls (n - 1) None w")
  obtain h' w2 where l: "build_list_loop cls a (n - 2) w' = (h', w2)"
    by (cases "build_list_loop cls a (n - 2) w'")
  have "build_list_loop (lift_class cls) a (n - 2) (w', tr) = (h', (w2, tr))"
    by (simp add: build_list_loop_lift lift_def l del: build_list_loop.simps)
  moreover have "construct (lift_class cls) (n - 1) None (w, tr) = (a, (w', tr))"
    by (simp add: lift_class_def lift_def c)
  ultimately show ?thesis using True c l
    by (simp add: build_list_def lift_def del: build_list_loop.simps)
next
  case False
  then show ?thesis by (simp add: build_list_def lift_def)
qed

lemma build_list_Inr: "0 < n \<Longrightarrow> \<exists>head. fst (build_list cls n w) = Inr head"
  by (simp add: build_list_def split: prod.splits del: build_list_loop.simps)

lemma lifted_le_base:
  fixes cls' :: "('r, 'w \<times> 't) node_class"
  assumes "python_sum_list_loop cls' tot current wt = Some y"
  shows "\<forall>cls :: ('r, 'w) node_class. cls' = lift_class cls \<longrightarrow>
           python_sum_list_loop cls tot current (fst wt) = Some (fst y, fst (snd y)) \<and>
           snd (snd y) = snd wt"
proof (rule python_sum_list_loop.raw_induct
    [where P = "\<lambda>cls' tot current wt y.
                  \<forall>cls :: ('r, 'w) node_class. cls' = lift_class cls \<longrightarrow>
                    python_sum_list_loop cls tot current (fst wt) = Some (fst y, fst (snd y)) \<and>
                    snd (snd y) = snd wt"])
  show "python_sum_list_loop cls' tot current wt = Some y" by fact
next
  fix loop :: "('r, 'w \<times> 't) node_class \<Rightarrow> int \<Rightarrow> 'r option \<Rightarrow> 'w \<times> 't \<Rightarrow>
                (int \<times> 'w \<times> 't) option"
  fix cls' tot current wt y
  assume IH: "\<And>cls' t c wt y. loop cls' t c wt = Some y \<Longrightarrow>
                \<forall>cls :: ('r, 'w) node_class. cls' = lift_class cls \<longrightarrow>
                  python_sum_list_loop cls t c (fst wt) = Some (fst y, fst (snd y)) \<and>
                  snd (snd y) = snd wt"
  assume step: "(case current of None \<Rightarrow> Some (tot, wt)
      | Some a \<Rightarrow>
          case get_value cls' a wt of
          (v, w1) \<Rightarrow>
            case get_next cls' a w1 of
            (nx, w2) \<Rightarrow> loop cls' (tot + v) nx w2) = Some y"
  show "\<forall>cls :: ('r, 'w) node_class. cls' = lift_class cls \<longrightarrow>
          python_sum_list_loop cls tot current (fst wt) = Some (fst y, fst (snd y)) \<and>
          snd (snd y) = snd wt"
  proof (intro allI impI)
    fix cls :: "('r, 'w) node_class" assume cls: "cls' = lift_class cls"
    obtain w tr where wt: "wt = (w, tr)" by (cases wt)
    show "python_sum_list_loop cls tot current (fst wt) = Some (fst y, fst (snd y)) \<and>
          snd (snd y) = snd wt"
    proof (cases current)
      case None
      with step wt show ?thesis by (auto simp: python_sum_list_loop_None)
    next
      case (Some a)
      obtain v w1 where gv: "get_value cls a w = (v, w1)" by (cases "get_value cls a w")
      obtain nx w2 where gn: "get_next cls a w1 = (nx, w2)" by (cases "get_next cls a w1")
      from step Some cls wt gv gn have "loop cls' (tot + v) nx (w2, tr) = Some y"
        by (simp add: lift_class_def lift_def)
      from IH [OF this] cls
      have r: "python_sum_list_loop cls (tot + v) nx w2 = Some (fst y, fst (snd y))"
        and t: "snd (snd y) = tr" by auto
      have "python_sum_list_loop cls tot (Some a) w = python_sum_list_loop cls (tot + v) nx w2"
        by (subst python_sum_list_loop.simps) (simp add: gv gn)
      with r t Some wt show ?thesis by simp
    qed
  qed
qed

lemma base_le_lifted:
  fixes cls :: "('r, 'w) node_class"
  assumes "python_sum_list_loop cls tot current w = Some y"
  shows "\<forall>tr :: 't. python_sum_list_loop (lift_class cls) tot current (w, tr) =
           Some (fst y, (snd y, tr))"
proof (rule python_sum_list_loop.raw_induct
    [where P = "\<lambda>cls tot current w y.
                  \<forall>tr :: 't. python_sum_list_loop (lift_class cls) tot current (w, tr) =
                    Some (fst y, (snd y, tr))"])
  show "python_sum_list_loop cls tot current w = Some y" by fact
next
  fix loop :: "('r, 'w) node_class \<Rightarrow> int \<Rightarrow> 'r option \<Rightarrow> 'w \<Rightarrow> (int \<times> 'w) option"
  fix cls tot current w y
  assume IH: "\<And>cls t c w y. loop cls t c w = Some y \<Longrightarrow>
                \<forall>tr :: 't. python_sum_list_loop (lift_class cls) t c (w, tr) =
                  Some (fst y, (snd y, tr))"
  assume step: "(case current of None \<Rightarrow> Some (tot, w)
      | Some a \<Rightarrow>
          case get_value cls a w of
          (v, w1) \<Rightarrow>
            case get_next cls a w1 of
            (nx, w2) \<Rightarrow> loop cls (tot + v) nx w2) = Some y"
  show "\<forall>tr :: 't. python_sum_list_loop (lift_class cls) tot current (w, tr) =
          Some (fst y, (snd y, tr))"
  proof
    fix tr :: 't
    show "python_sum_list_loop (lift_class cls) tot current (w, tr) = Some (fst y, (snd y, tr))"
    proof (cases current)
      case None
      with step show ?thesis by (auto simp: python_sum_list_loop_None)
    next
      case (Some a)
      obtain v w1 where gv: "get_value cls a w = (v, w1)" by (cases "get_value cls a w")
      obtain nx w2 where gn: "get_next cls a w1 = (nx, w2)" by (cases "get_next cls a w1")
      from step Some gv gn have "loop cls (tot + v) nx w2 = Some y" by simp
      from IH [OF this]
      have r: "python_sum_list_loop (lift_class cls) (tot + v) nx (w2, tr) =
                 Some (fst y, (snd y, tr))" by blast
      have "python_sum_list_loop (lift_class cls) tot (Some a) (w, tr) =
            python_sum_list_loop (lift_class cls) (tot + v) nx (w2, tr)"
        by (subst python_sum_list_loop.simps) (simp add: gv gn lift_class_def lift_def)
      with r Some show ?thesis by simp
    qed
  qed
qed

lemma python_sum_list_lift:
  "python_sum_list (lift_class cls) head (w, tr) = lift_opt (python_sum_list cls head) (w, tr)"
proof (cases "python_sum_list_loop cls 0 head w")
  case None
  have "python_sum_list_loop (lift_class cls) 0 head (w, tr) = None"
  proof (cases "python_sum_list_loop (lift_class cls) 0 head (w, tr)")
    case (Some y)
    from lifted_le_base [OF Some] None show ?thesis by auto
  qed simp
  with None show ?thesis by (simp add: python_sum_list_def lift_opt_def)
next
  case (Some y)
  from base_le_lifted [OF Some, THEN spec, of tr] Some show ?thesis
    by (cases y) (simp add: python_sum_list_def lift_opt_def)
qed


subsection \<open>The verification\<close>

lemma bind_r_Inr_iff:
  "bind_r m k = Some (Inr u, w') \<longleftrightarrow> (\<exists>a w1. m = Some (Inr a, w1) \<and> k a w1 = Some (Inr u, w'))"
  by (auto simp: bind_r_def split: option.splits sum.splits prod.splits)

lemma bind_r_Inl_iff:
  "bind_r m k = Some (Inl e, w') \<longleftrightarrow>
     m = Some (Inl e, w') \<or> (\<exists>a w1. m = Some (Inr a, w1) \<and> k a w1 = Some (Inl e, w'))"
  by (auto simp: bind_r_def split: option.splits sum.splits prod.splits)

lemma assert_sum_Inr_iff:
  "assert_sum name f expected w = Some (Inr u, w') \<longleftrightarrow> f w = Some (expected, w')"
  by (auto simp: assert_sum_def split: option.splits prod.splits if_splits)

lemma assert_sum_Inl:
  "assert_sum name f expected w = Some (Inl e, w') \<Longrightarrow> \<exists>got. e = SumWrong name got expected"
  by (auto simp: assert_sum_def split: option.splits prod.splits if_splits)

lemma verify_Inr_iff:
  "verify py c rust py_list c_list rust_list expected w3 = Some (Inr (), w9) \<longleftrightarrow>
     (\<exists>w4 w5 w6 w7 w8.
        native_sum_list py (Some py_list) w3 = Some (expected, w4) \<and>
        native_sum_list c (Some c_list) w4 = Some (expected, w5) \<and>
        native_sum_list rust (Some rust_list) w5 = Some (expected, w6) \<and>
        python_sum_list (Node py) (Some py_list) w6 = Some (expected, w7) \<and>
        python_sum_list (Node c) (Some c_list) w7 = Some (expected, w8) \<and>
        python_sum_list (Node rust) (Some rust_list) w8 = Some (expected, w9))"
  unfolding verify_def bind_r_Inr_iff assert_sum_Inr_iff by blast

lemma verify_Inl:
  assumes "verify py c rust py_list c_list rust_list expected w = Some (Inl e, w')"
  shows "\<exists>name got. e = SumWrong name got expected"
  using assms unfolding verify_def bind_r_Inl_iff by (blast dest: assert_sum_Inl)

lemma assert_sum_lift:
  "assert_sum name (lift_opt f) expected (w, tr) = lift_opt (assert_sum name f expected) (w, tr)"
  by (auto simp: assert_sum_def lift_opt_def split: option.splits prod.splits)

lemma bind_r_lift:
  "bind_r (lift_opt m (w, tr)) (\<lambda>a. lift_opt (k a)) = lift_opt (\<lambda>w. bind_r (m w) k) (w, tr)"
  by (auto simp: bind_r_def lift_opt_def split: option.splits prod.splits sum.splits)

lemma python_sum_list_lift_fun:
  "python_sum_list (lift_class cls) head = lift_opt (python_sum_list cls head)"
  by (rule ext) (auto simp: python_sum_list_lift)

lemma verify_lift:
  "verify (lift_module py) (lift_module c) (lift_module rust) py_list c_list rust_list expected
     (w, tr) =
   lift_opt (verify py c rust py_list c_list rust_list expected) (w, tr)"
proof -
  have n: "\<And>m h. native_sum_list (lift_module m) h = lift_opt (native_sum_list m h)"
    by (simp add: lift_module_def)
  have p: "\<And>m h. python_sum_list (Node (lift_module m)) h = lift_opt (python_sum_list (Node m) h)"
    by (simp add: lift_module_def python_sum_list_lift_fun)
  have a: "\<And>name f. (\<lambda>wt. assert_sum name (lift_opt f) expected wt) =
                     lift_opt (assert_sum name f expected)"
    by (rule ext) (auto simp: assert_sum_lift)
  have b: "\<And>m k. (\<lambda>wt. bind_r (lift_opt m wt) (\<lambda>a. lift_opt (k a))) =
                   lift_opt (\<lambda>w. bind_r (m w) k)"
    by (rule ext) (auto simp: bind_r_lift)
  show ?thesis unfolding verify_def n p
    by (simp only: assert_sum_lift bind_r_lift a b)
qed

subsection \<open>The run of main\<close>

lemma N_pos: "0 < N"
  by (simp add: N_def)

lemma main_lifted:
  assumes run: "main (traced_rt rt) env (lift_module py) (lift_module c) (lift_module rust) (w, tr0) =
                  Some (r, (w', tr))"
  shows "\<exists>py_list c_list rust_list w1 w2 w3.
           build_list (Node py) N (print_all rt (preamble env) w) = (Inr py_list, w1) \<and>
           build_list (Node c) N w1 = (Inr c_list, w2) \<and>
           build_list (Node rust) N w2 = (Inr rust_list, w3) \<and>
           (case verify py c rust py_list c_list rust_list (N * (N - 1) div 2) w3 of
              None \<Rightarrow> False
            | Some (Inl e, w9) \<Rightarrow> r = Inl e \<and> w' = w9 \<and> tr = tr0 @ map Printed (preamble env)
            | Some (Inr u, w9) \<Rightarrow>
                report (traced_rt rt) (lift_module py) (lift_module c) (lift_module rust)
                  py_list c_list rust_list (N * (N - 1) div 2)
                  (w9, tr0 @ map Printed (preamble env)) = Some (r, (w', tr)))"
proof -
  define tr1 where "tr1 = tr0 @ map Printed (preamble env)"
  define w0 where "w0 = print_all rt (preamble env) w"
  have p: "print_all (traced_rt rt) (preamble env) (w, tr0) = (w0, tr1)"
    by (simp add: print_all_traced w0_def tr1_def)
  obtain py_list w1 where b1: "build_list (Node py) N w0 = (Inr py_list, w1)"
    using build_list_Inr [OF N_pos, of "Node py" w0] by (cases "build_list (Node py) N w0") auto
  obtain c_list w2 where b2: "build_list (Node c) N w1 = (Inr c_list, w2)"
    using build_list_Inr [OF N_pos, of "Node c" w1] by (cases "build_list (Node c) N w1") auto
  obtain rust_list w3 where b3: "build_list (Node rust) N w2 = (Inr rust_list, w3)"
    using build_list_Inr [OF N_pos, of "Node rust" w2] by (cases "build_list (Node rust) N w2") auto
  have l1: "build_list (Node (lift_module py)) N (w0, tr1) = (Inr py_list, (w1, tr1))"
    by (simp add: lift_module_def build_list_lift lift_def b1)
  have l2: "build_list (Node (lift_module c)) N (w1, tr1) = (Inr c_list, (w2, tr1))"
    by (simp add: lift_module_def build_list_lift lift_def b2)
  have l3: "build_list (Node (lift_module rust)) N (w2, tr1) = (Inr rust_list, (w3, tr1))"
    by (simp add: lift_module_def build_list_lift lift_def b3)
  let ?E = "N * (N - 1) div 2"
  let ?rep = "\<lambda>wt. report (traced_rt rt) (lift_module py) (lift_module c) (lift_module rust)
                      py_list c_list rust_list ?E wt"
  have m: "bind_r (lift_opt (verify py c rust py_list c_list rust_list ?E) (w3, tr1))
             (\<lambda>u. ?rep) = Some (r, (w', tr))"
    using run by (simp add: main_def Let_def p l1 l2 l3 bind_r_def verify_lift)
  have "case verify py c rust py_list c_list rust_list ?E w3 of
          None \<Rightarrow> False
        | Some (Inl e, w9) \<Rightarrow> r = Inl e \<and> w' = w9 \<and> tr = tr1
        | Some (Inr u, w9) \<Rightarrow> ?rep (w9, tr1) = Some (r, (w', tr))"
    using m by (auto simp: bind_r_def lift_opt_def split: option.splits sum.splits prod.splits)
  with b1 b2 b3 show ?thesis unfolding w0_def tr1_def by blast
qed

subsection \<open>The timings\<close>

lemma keeps_trace_lift_opt: "keeps_trace (lift_opt f)"
  by (auto simp: keeps_trace_def lift_opt_def split: option.splits)

lemma keeps_trace_native: "keeps_trace (native_sum_list (lift_module m) head)"
  by (simp add: lift_module_def keeps_trace_lift_opt)

lemma keeps_trace_python: "keeps_trace (python_sum_list (Node (lift_module m)) head)"
  by (simp add: lift_module_def python_sum_list_lift_fun keeps_trace_lift_opt)

lemma call_discard_Some:
  "call_discard f head w = Some w' \<longleftrightarrow> (\<exists>v. f head w = Some (v, w'))"
  by (auto simp: call_discard_def split: option.splits)

lemma for_range_keeps_trace:
  assumes "keeps_trace (f head)"
  shows "for_range k (call_discard f head) (w, tr) = Some wt \<Longrightarrow> snd wt = tr"
proof (induction k arbitrary: w)
  case 0
  then show ?case by auto
next
  case (Suc k)
  from Suc.prems obtain wt1 where c: "call_discard f head (w, tr) = Some wt1"
    and r: "for_range k (call_discard f head) wt1 = Some wt"
    by (auto split: option.splits)
  from c obtain v where "f head (w, tr) = Some (v, wt1)" unfolding call_discard_Some by blast
  with assms have "snd wt1 = tr" unfolding keeps_trace_def by blast
  then obtain w1 where "wt1 = (w1, tr)" by (cases wt1) auto
  with r Suc.IH show ?case by simp
qed

lemma bench_traced_Inr:
  assumes kt: "keeps_trace (f head)"
    and b: "bench (traced_rt rt) label (Callable f) head it (w, tr) = Some (Inr ns, wt)"
  shows "\<exists>t0 t1 w'. ns = rat_of_int (t1 - t0) / rat_of_int it \<and>
           wt = (w', tr @ [ClockRead t0, ClockRead t1, Printed (BenchLine label ns)])"
proof -
  from b have it: "it > 0" by (auto simp: bench_def split: if_splits)
  from b it obtain w1 tr1 where
    f1: "for_range 1000 (call_discard f head) (w, tr) = Some (w1, tr1)"
    by (cases "for_range 1000 (call_discard f head) (w, tr)") (auto simp: bench_def)
  from for_range_keeps_trace [OF kt f1] have tr1: "tr1 = tr" by simp
  obtain t0 w2 where c0: "perf_counter_ns rt w1 = (t0, w2)" by (cases "perf_counter_ns rt w1")
  have p0: "perf_counter_ns (traced_rt rt) (w1, tr) = (t0, (w2, tr @ [ClockRead t0]))"
    by (simp add: perf_counter_traced c0)
  from b it f1 tr1 p0 obtain w3 tr3 where
    f2: "for_range (nat it) (call_discard f head) (w2, tr @ [ClockRead t0]) = Some (w3, tr3)"
    by (cases "for_range (nat it) (call_discard f head) (w2, tr @ [ClockRead t0])")
       (auto simp: bench_def)
  from for_range_keeps_trace [OF kt f2] have tr3: "tr3 = tr @ [ClockRead t0]" by simp
  obtain t1 w4 where c1: "perf_counter_ns rt w3 = (t1, w4)" by (cases "perf_counter_ns rt w3")
  have p1: "perf_counter_ns (traced_rt rt) (w3, tr @ [ClockRead t0]) =
              (t1, (w4, tr @ [ClockRead t0, ClockRead t1]))"
    by (simp add: perf_counter_traced c1)
  from b it f1 tr1 p0 f2 tr3 p1
  have "ns = rat_of_int (t1 - t0) / rat_of_int it \<and>
        wt = (print rt (BenchLine label ns) w4,
              tr @ [ClockRead t0, ClockRead t1, Printed (BenchLine label ns)])"
    by (auto simp: bench_def Let_def print_traced)
  then show ?thesis by blast
qed

lemma ratios_traced_Inr:
  assumes "ratios (traced_rt rt) py_native c_native rust_native py_cross c_cross rust_cross (w, tr) =
             Some (Inr u, wt)"
  shows "c_native \<noteq> 0 \<and>
         (\<exists>w'. wt = (w', tr @ map Printed
           [Text ''\<newline>--- Ratios (relative to C native) ---'',
            RatioLine ''  Python native / C native:  '' (py_native / c_native),
            RatioLine ''  Rust native / C native:    '' (rust_native / c_native),
            RatioLine ''  Python cross / C native:   '' (py_cross / c_native),
            RatioLine ''  C cross / C native:        '' (c_cross / c_native),
            RatioLine ''  Rust cross / C native:     '' (rust_cross / c_native)]))"
  using assms by (auto simp: ratios_def Let_def print_traced print_all_traced split: if_splits)

lemma falsification_traced:
  "snd (falsification (traced_rt rt) rust_native c_native (w, tr)) =
     (tr @ Printed (Text ''\<newline>--- Falsification ---'') #
        (if rust_native < c_native
         then [Printed (Text ''UNEXPECTED: Rust native FASTER than C native.''),
               Printed (Text ''The PyO3 boundary-crossing hypothesis is WRONG for this workload.'')]
         else [Printed (OverheadLine (rust_native - c_native)
                          ((rust_native - c_native) / rat_of_int N)),
               Printed (Text ''Consistent with PyO3 extract/borrow overhead per node.'')]))"
  by (simp add: falsification_def Let_def print_traced print_all_traced)

lemma report_trace:
  assumes "report (traced_rt rt) (lift_module py) (lift_module c) (lift_module rust)
             py_list c_list rust_list expected (w, tr) = Some (Inr (), (w', tr'))"
  shows "\<exists>wa wb wc t0 t1 t2 t3 t4 t5 t6 t7 t8 t9 t10 t11
           py_native c_native rust_native py_cross c_cross rust_cross.
           bench (traced_rt rt) ''C loop, C nodes''
             (Callable (native_sum_list (lift_module c))) (Some c_list) M wa =
             Some (Inr c_native, wb) \<and>
           bench (traced_rt rt) ''Rust loop, Rust nodes''
             (Callable (native_sum_list (lift_module rust))) (Some rust_list) M wb =
             Some (Inr rust_native, wc) \<and>
           py_native = rat_of_int (t1 - t0) / rat_of_int M \<and>
           c_native = rat_of_int (t3 - t2) / rat_of_int M \<and>
           rust_native = rat_of_int (t5 - t4) / rat_of_int M \<and>
           py_cross = rat_of_int (t7 - t6) / rat_of_int M \<and>
           c_cross = rat_of_int (t9 - t8) / rat_of_int M \<and>
           rust_cross = rat_of_int (t11 - t10) / rat_of_int M \<and>
           c_native \<noteq> 0 \<and>
           tr' = tr @
             map Printed
               [CorrectnessLine expected (N - 1), Text '''', SizeLine N M,
                Text ''Benchmark                                   ns/traversal'',
                Text (replicate 56 CHR ''-''),
                Text ''\<newline>--- Native (loop + data in same language) ---''] @
             [ClockRead t0, ClockRead t1, Printed (BenchLine ''Python loop, Python nodes'' py_native),
              ClockRead t2, ClockRead t3, Printed (BenchLine ''C loop, C nodes'' c_native),
              ClockRead t4, ClockRead t5, Printed (BenchLine ''Rust loop, Rust nodes'' rust_native),
              Printed (Text ''\<newline>--- Python loop, different node types ---''),
              ClockRead t6, ClockRead t7, Printed (BenchLine ''Python loop, Python nodes'' py_cross),
              ClockRead t8, ClockRead t9, Printed (BenchLine ''Python loop, C nodes'' c_cross),
              ClockRead t10, ClockRead t11,
              Printed (BenchLine ''Python loop, Rust nodes'' rust_cross)] @
             map Printed
               [Text ''\<newline>--- Ratios (relative to C native) ---'',
                RatioLine ''  Python native / C native:  '' (py_native / c_native),
                RatioLine ''  Rust native / C native:    '' (rust_native / c_native),
                RatioLine ''  Python cross / C native:   '' (py_cross / c_native),
                RatioLine ''  C cross / C native:        '' (c_cross / c_native),
                RatioLine ''  Rust cross / C native:     '' (rust_cross / c_native)] @
             Printed (Text ''\<newline>--- Falsification ---'') #
               (if rust_native < c_native
                then [Printed (Text ''UNEXPECTED: Rust native FASTER than C native.''),
                      Printed (Text
                        ''The PyO3 boundary-crossing hypothesis is WRONG for this workload.'')]
                else [Printed (OverheadLine (rust_native - c_native)
                                 ((rust_native - c_native) / rat_of_int N)),
                      Printed (Text ''Consistent with PyO3 extract/borrow overhead per node.'')])"
proof -
  define hd1 where "hd1 = map Printed
               [CorrectnessLine expected (N - 1), Text '''', SizeLine N M,
                Text ''Benchmark                                   ns/traversal'',
                Text (replicate 56 CHR ''-''),
                Text ''\<newline>--- Native (loop + data in same language) ---'']"
  obtain wa where pa: "print_all (traced_rt rt)
                [CorrectnessLine expected (N - 1), Text '''', SizeLine N M,
                 Text ''Benchmark                                   ns/traversal'',
                 Text (replicate 56 CHR ''-''),
                 Text ''\<newline>--- Native (loop + data in same language) ---''] (w, tr) =
               (wa, tr @ hd1)"
    by (simp add: print_all_traced hd1_def)
  note r = assms [unfolded report_def Let_def pa bind_r_Inr_iff]
  from r obtain py_native wt1 c_native wt2 rust_native wt3 py_cross wt4 c_cross wt5
    rust_cross wt6 u wt7 where
    b1: "bench (traced_rt rt) ''Python loop, Python nodes''
           (Callable (native_sum_list (lift_module py))) (Some py_list) M (wa, tr @ hd1) =
         Some (Inr py_native, wt1)"
    and b2: "bench (traced_rt rt) ''C loop, C nodes''
           (Callable (native_sum_list (lift_module c))) (Some c_list) M wt1 =
         Some (Inr c_native, wt2)"
    and b3: "bench (traced_rt rt) ''Rust loop, Rust nodes''
           (Callable (native_sum_list (lift_module rust))) (Some rust_list) M wt2 =
         Some (Inr rust_native, wt3)"
    and b4: "bench (traced_rt rt) ''Python loop, Python nodes''
           (Callable (python_sum_list (Node (lift_module py)))) (Some py_list) M
           (print (traced_rt rt) (Text ''\<newline>--- Python loop, different node types ---'') wt3) =
         Some (Inr py_cross, wt4)"
    and b5: "bench (traced_rt rt) ''Python loop, C nodes''
           (Callable (python_sum_list (Node (lift_module c)))) (Some c_list) M wt4 =
         Some (Inr c_cross, wt5)"
    and b6: "bench (traced_rt rt) ''Python loop, Rust nodes''
           (Callable (python_sum_list (Node (lift_module rust)))) (Some rust_list) M wt5 =
         Some (Inr rust_cross, wt6)"
    and ra: "ratios (traced_rt rt) py_native c_native rust_native py_cross c_cross rust_cross wt6 =
         Some (Inr u, wt7)"
    and fa: "falsification (traced_rt rt) rust_native c_native wt7 = (w', tr')"
    by auto
  from bench_traced_Inr [OF keeps_trace_native b1] obtain t0 t1 w1 where
    n1: "py_native = rat_of_int (t1 - t0) / rat_of_int M"
    and w1: "wt1 = (w1, tr @ hd1 @ [ClockRead t0, ClockRead t1,
                      Printed (BenchLine ''Python loop, Python nodes'' py_native)])"
    by auto
  from bench_traced_Inr [OF keeps_trace_native b2 [unfolded w1]] obtain t2 t3 w2 where
    n2: "c_native = rat_of_int (t3 - t2) / rat_of_int M"
    and w2: "wt2 = (w2, tr @ hd1 @ [ClockRead t0, ClockRead t1,
                      Printed (BenchLine ''Python loop, Python nodes'' py_native),
                      ClockRead t2, ClockRead t3, Printed (BenchLine ''C loop, C nodes'' c_native)])"
    by auto
  from bench_traced_Inr [OF keeps_trace_native b3 [unfolded w2]] obtain t4 t5 w3 where
    n3: "rust_native = rat_of_int (t5 - t4) / rat_of_int M"
    and w3: "wt3 = (w3, tr @ hd1 @ [ClockRead t0, ClockRead t1,
                      Printed (BenchLine ''Python loop, Python nodes'' py_native),
                      ClockRead t2, ClockRead t3, Printed (BenchLine ''C loop, C nodes'' c_native),
                      ClockRead t4, ClockRead t5,
                      Printed (BenchLine ''Rust loop, Rust nodes'' rust_native)])"
    by auto
  define tr3 where "tr3 = tr @ hd1 @ [ClockRead t0, ClockRead t1,
                      Printed (BenchLine ''Python loop, Python nodes'' py_native),
                      ClockRead t2, ClockRead t3, Printed (BenchLine ''C loop, C nodes'' c_native),
                      ClockRead t4, ClockRead t5,
                      Printed (BenchLine ''Rust loop, Rust nodes'' rust_native),
                      Printed (Text ''\<newline>--- Python loop, different node types ---'')]"
  obtain w3' where p3: "print (traced_rt rt)
      (Text ''\<newline>--- Python loop, different node types ---'') wt3 = (w3', tr3)"
    by (simp add: w3 print_traced tr3_def)
  from bench_traced_Inr [OF keeps_trace_python b4 [unfolded p3]] obtain t6 t7 w4 where
    n4: "py_cross = rat_of_int (t7 - t6) / rat_of_int M"
    and w4: "wt4 = (w4, tr3 @ [ClockRead t6, ClockRead t7,
                      Printed (BenchLine ''Python loop, Python nodes'' py_cross)])"
    by auto
  from bench_traced_Inr [OF keeps_trace_python b5 [unfolded w4]] obtain t8 t9 w5 where
    n5: "c_cross = rat_of_int (t9 - t8) / rat_of_int M"
    and w5: "wt5 = (w5, tr3 @ [ClockRead t6, ClockRead t7,
                      Printed (BenchLine ''Python loop, Python nodes'' py_cross),
                      ClockRead t8, ClockRead t9,
                      Printed (BenchLine ''Python loop, C nodes'' c_cross)])"
    by auto
  from bench_traced_Inr [OF keeps_trace_python b6 [unfolded w5]] obtain t10 t11 w6 where
    n6: "rust_cross = rat_of_int (t11 - t10) / rat_of_int M"
    and w6: "wt6 = (w6, tr3 @ [ClockRead t6, ClockRead t7,
                      Printed (BenchLine ''Python loop, Python nodes'' py_cross),
                      ClockRead t8, ClockRead t9,
                      Printed (BenchLine ''Python loop, C nodes'' c_cross),
                      ClockRead t10, ClockRead t11,
                      Printed (BenchLine ''Python loop, Rust nodes'' rust_cross)])"
    by auto
  define tr6 where "tr6 = tr3 @ [ClockRead t6, ClockRead t7,
                      Printed (BenchLine ''Python loop, Python nodes'' py_cross),
                      ClockRead t8, ClockRead t9,
                      Printed (BenchLine ''Python loop, C nodes'' c_cross),
                      ClockRead t10, ClockRead t11,
                      Printed (BenchLine ''Python loop, Rust nodes'' rust_cross)]"
  from ratios_traced_Inr [OF ra [unfolded w6 tr6_def [symmetric]]] obtain w7 where
    nz: "c_native \<noteq> 0"
    and w7: "wt7 = (w7, tr6 @
             map Printed
               [Text ''\<newline>--- Ratios (relative to C native) ---'',
                RatioLine ''  Python native / C native:  '' (py_native / c_native),
                RatioLine ''  Rust native / C native:    '' (rust_native / c_native),
                RatioLine ''  Python cross / C native:   '' (py_cross / c_native),
                RatioLine ''  C cross / C native:        '' (c_cross / c_native),
                RatioLine ''  Rust cross / C native:     '' (rust_cross / c_native)])"
    by auto
  have "tr' = snd (falsification (traced_rt rt) rust_native c_native wt7)"
    using fa by simp
  then have "tr' = (tr6 @
             map Printed
               [Text ''\<newline>--- Ratios (relative to C native) ---'',
                RatioLine ''  Python native / C native:  '' (py_native / c_native),
                RatioLine ''  Rust native / C native:    '' (rust_native / c_native),
                RatioLine ''  Python cross / C native:   '' (py_cross / c_native),
                RatioLine ''  C cross / C native:        '' (c_cross / c_native),
                RatioLine ''  Rust cross / C native:     '' (rust_cross / c_native)]) @
             Printed (Text ''\<newline>--- Falsification ---'') #
               (if rust_native < c_native
                then [Printed (Text ''UNEXPECTED: Rust native FASTER than C native.''),
                      Printed (Text
                        ''The PyO3 boundary-crossing hypothesis is WRONG for this workload.'')]
                else [Printed (OverheadLine (rust_native - c_native)
                                 ((rust_native - c_native) / rat_of_int N)),
                      Printed (Text ''Consistent with PyO3 extract/borrow overhead per node.'')])"
    by (simp only: w7 falsification_traced)
  then have tf: "tr' = tr @
             map Printed
               [CorrectnessLine expected (N - 1), Text '''', SizeLine N M,
                Text ''Benchmark                                   ns/traversal'',
                Text (replicate 56 CHR ''-''),
                Text ''\<newline>--- Native (loop + data in same language) ---''] @
             [ClockRead t0, ClockRead t1, Printed (BenchLine ''Python loop, Python nodes'' py_native),
              ClockRead t2, ClockRead t3, Printed (BenchLine ''C loop, C nodes'' c_native),
              ClockRead t4, ClockRead t5, Printed (BenchLine ''Rust loop, Rust nodes'' rust_native),
              Printed (Text ''\<newline>--- Python loop, different node types ---''),
              ClockRead t6, ClockRead t7, Printed (BenchLine ''Python loop, Python nodes'' py_cross),
              ClockRead t8, ClockRead t9, Printed (BenchLine ''Python loop, C nodes'' c_cross),
              ClockRead t10, ClockRead t11,
              Printed (BenchLine ''Python loop, Rust nodes'' rust_cross)] @
             map Printed
               [Text ''\<newline>--- Ratios (relative to C native) ---'',
                RatioLine ''  Python native / C native:  '' (py_native / c_native),
                RatioLine ''  Rust native / C native:    '' (rust_native / c_native),
                RatioLine ''  Python cross / C native:   '' (py_cross / c_native),
                RatioLine ''  C cross / C native:        '' (c_cross / c_native),
                RatioLine ''  Rust cross / C native:     '' (rust_cross / c_native)] @
             Printed (Text ''\<newline>--- Falsification ---'') #
               (if rust_native < c_native
                then [Printed (Text ''UNEXPECTED: Rust native FASTER than C native.''),
                      Printed (Text
                        ''The PyO3 boundary-crossing hypothesis is WRONG for this workload.'')]
                else [Printed (OverheadLine (rust_native - c_native)
                                 ((rust_native - c_native) / rat_of_int N)),
                      Printed (Text ''Consistent with PyO3 extract/borrow overhead per node.'')])"
    unfolding tr6_def tr3_def hd1_def by simp
  show ?thesis
    by (intro exI conjI)
       (rule b2, rule b3, rule n1, rule n2, rule n3, rule n4, rule n5, rule n6, rule nz, rule tf)
qed

subsection \<open>Runs with stub modules\<close>

lemma build_list_loop_stub: "build_list_loop (Node (stub_module s v)) h i w = ((), w)"
proof (induction "nat (i + 1)" arbitrary: h i)
  case 0
  then show ?case by simp
next
  case (Suc k)
  then have i: "i > -1" "k = nat (i - 1 + 1)" by auto
  have "build_list_loop (Node (stub_module s v)) h i w =
        build_list_loop (Node (stub_module s v)) () (i - 1) w"
    using i(1) by (subst build_list_loop.simps) (simp add: stub_module_def)
  then show ?case using Suc.hyps(1) [OF i(2)] by simp
qed

lemma build_list_stub: "build_list (Node (stub_module s v)) N w = (Inr (), w)"
  using N_pos
  by (simp add: build_list_def build_list_loop_stub del: build_list_loop.simps)
     (simp add: stub_module_def)

lemma build_list_stub_lifted:
  "build_list (Node (lift_module (stub_module s v))) N wt = (Inr (), wt)"
  by (cases wt) (simp add: lift_module_def build_list_lift lift_def build_list_stub)

lemma bind_r_Inr: "bind_r (Some (Inr a, w)) k = k a w"
  by (simp add: bind_r_def)

lemma bind_r_Inl: "bind_r (Some (Inl e, w)) k = Some (Inl e, w)"
  by (simp add: bind_r_def)

lemma native_stub: "native_sum_list (stub_module s v) head w = Some (s, w)"
  by (simp add: stub_module_def)

lemma python_stub: "python_sum_list (Node (stub_module s v)) (Some ()) w = Some (v, w)"
  unfolding python_sum_list_def
  by (subst python_sum_list_loop.simps) (simp add: stub_module_def python_sum_list_loop_None)

lemma native_stub_lifted:
  "native_sum_list (lift_module (stub_module s v)) head wt = Some (s, wt)"
  by (cases wt) (simp add: lift_module_def lift_opt_def native_stub)

lemma python_stub_lifted:
  "python_sum_list (Node (lift_module (stub_module s v))) (Some ()) wt = Some (v, wt)"
  by (cases wt) (simp add: lift_module_def python_sum_list_lift lift_opt_def python_stub)

lemma for_range_returns:
  assumes "\<And>w. f head w = Some (v, w)"
  shows "for_range k (call_discard f head) w = Some w"
  by (induction k) (simp_all add: call_discard_def assms)

lemma bench_replay:
  assumes "\<And>w. f head w = Some (v, w)"
  shows "bench (traced_rt replay_rt) label (Callable f) head M (t0 # t1 # ts, tr) =
           Some (Inr (rat_of_int (t1 - t0) / rat_of_int M),
                 (ts, tr @ [ClockRead t0, ClockRead t1,
                            Printed (BenchLine label (rat_of_int (t1 - t0) / rat_of_int M))]))"
proof -
  have m: "0 < M" by (simp add: M_def)
  show ?thesis unfolding bench_def
    by (simp add: m for_range_returns [of f, OF assms] perf_counter_traced print_traced
          replay_rt_def Let_def del: for_range.simps)
qed

lemma bench_native_stub:
  "bench (traced_rt replay_rt) label (Callable (native_sum_list (lift_module (stub_module s v))))
     head M (t0 # t1 # ts, tr) =
   Some (Inr (rat_of_int (t1 - t0) / rat_of_int M),
         (ts, tr @ [ClockRead t0, ClockRead t1,
                    Printed (BenchLine label (rat_of_int (t1 - t0) / rat_of_int M))]))"
  by (rule bench_replay) (rule native_stub_lifted)

lemma bench_python_stub:
  "bench (traced_rt replay_rt) label
     (Callable (python_sum_list (Node (lift_module (stub_module s v))))) (Some ()) M
     (t0 # t1 # ts, tr) =
   Some (Inr (rat_of_int (t1 - t0) / rat_of_int M),
         (ts, tr @ [ClockRead t0, ClockRead t1,
                    Printed (BenchLine label (rat_of_int (t1 - t0) / rat_of_int M))]))"
  by (rule bench_replay) (rule python_stub_lifted)

lemma print_all_replay: "print_all replay_rt ls ts = ts"
  by (induction ls) (simp_all add: print_all_def replay_rt_def)

lemma verify_stub:
  "verify (lift_module (stub_module s1 v1)) (lift_module (stub_module s2 v2))
     (lift_module (stub_module s3 v3)) () () () expected wt =
   (if s1 \<noteq> expected then Some (Inl (SumWrong ''py_sum_list'' s1 expected), wt)
    else if s2 \<noteq> expected then Some (Inl (SumWrong ''c_sum_list'' s2 expected), wt)
    else if s3 \<noteq> expected then Some (Inl (SumWrong ''rust_sum_list'' s3 expected), wt)
    else if v1 \<noteq> expected then Some (Inl (SumWrong ''python_sum_list(py)'' v1 expected), wt)
    else if v2 \<noteq> expected then Some (Inl (SumWrong ''python_sum_list(c)'' v2 expected), wt)
    else if v3 \<noteq> expected then Some (Inl (SumWrong ''python_sum_list(rust)'' v3 expected), wt)
    else Some (Inr (), wt))"
  by (simp add: verify_def assert_sum_def bind_r_def native_stub_lifted python_stub_lifted)


lemma print_replay: "print replay_rt l ts = ts"
  by (simp add: replay_rt_def)

lemma ratios_replay:
  "c_native \<noteq> 0 \<Longrightarrow>
   ratios (traced_rt replay_rt) py_native c_native rust_native py_cross c_cross rust_cross
     (ts, tr) =
   Some (Inr (), (ts, tr @ map Printed
     [Text ''\<newline>--- Ratios (relative to C native) ---'',
      RatioLine ''  Python native / C native:  '' (py_native / c_native),
      RatioLine ''  Rust native / C native:    '' (rust_native / c_native),
      RatioLine ''  Python cross / C native:   '' (py_cross / c_native),
      RatioLine ''  C cross / C native:        '' (c_cross / c_native),
      RatioLine ''  Rust cross / C native:     '' (rust_cross / c_native)]))"
  by (simp add: ratios_def Let_def print_traced print_all_traced print_replay print_all_replay)

lemma falsification_replay:
  "falsification (traced_rt replay_rt) rust_native c_native (ts, tr) =
     (ts, tr @ Printed (Text ''\<newline>--- Falsification ---'') #
        (if rust_native < c_native
         then [Printed (Text ''UNEXPECTED: Rust native FASTER than C native.''),
               Printed (Text ''The PyO3 boundary-crossing hypothesis is WRONG for this workload.'')]
         else [Printed (OverheadLine (rust_native - c_native)
                          ((rust_native - c_native) / rat_of_int N)),
               Printed (Text ''Consistent with PyO3 extract/borrow overhead per node.'')]))"
  by (simp add: falsification_def Let_def print_traced print_all_traced print_replay
        print_all_replay)

lemma main_stub_run:
  assumes "t3 \<noteq> t2"
  shows "main (traced_rt replay_rt) env
           (lift_module (stub_module (N * (N - 1) div 2) (N * (N - 1) div 2)))
           (lift_module (stub_module (N * (N - 1) div 2) (N * (N - 1) div 2)))
           (lift_module (stub_module (N * (N - 1) div 2) (N * (N - 1) div 2)))
           ([t0, t1, t2, t3, t4, t5, t6, t7, t8, t9, t10, t11], tr0) =
         Some (Inr (), ([],
           tr0 @ map Printed (preamble env) @
             map Printed
               [CorrectnessLine (N * (N - 1) div 2) (N - 1), Text '''', SizeLine N M,
                Text ''Benchmark                                   ns/traversal'',
                Text (replicate 56 CHR ''-''),
                Text ''\<newline>--- Native (loop + data in same language) ---''] @
             [ClockRead t0, ClockRead t1,
              Printed (BenchLine ''Python loop, Python nodes''
                         (rat_of_int (t1 - t0) / rat_of_int M)),
              ClockRead t2, ClockRead t3,
              Printed (BenchLine ''C loop, C nodes'' (rat_of_int (t3 - t2) / rat_of_int M)),
              ClockRead t4, ClockRead t5,
              Printed (BenchLine ''Rust loop, Rust nodes'' (rat_of_int (t5 - t4) / rat_of_int M)),
              Printed (Text ''\<newline>--- Python loop, different node types ---''),
              ClockRead t6, ClockRead t7,
              Printed (BenchLine ''Python loop, Python nodes''
                         (rat_of_int (t7 - t6) / rat_of_int M)),
              ClockRead t8, ClockRead t9,
              Printed (BenchLine ''Python loop, C nodes'' (rat_of_int (t9 - t8) / rat_of_int M)),
              ClockRead t10, ClockRead t11,
              Printed (BenchLine ''Python loop, Rust nodes''
                         (rat_of_int (t11 - t10) / rat_of_int M))] @
             map Printed
               [Text ''\<newline>--- Ratios (relative to C native) ---'',
                RatioLine ''  Python native / C native:  ''
                  (rat_of_int (t1 - t0) / rat_of_int M / (rat_of_int (t3 - t2) / rat_of_int M)),
                RatioLine ''  Rust native / C native:    ''
                  (rat_of_int (t5 - t4) / rat_of_int M / (rat_of_int (t3 - t2) / rat_of_int M)),
                RatioLine ''  Python cross / C native:   ''
                  (rat_of_int (t7 - t6) / rat_of_int M / (rat_of_int (t3 - t2) / rat_of_int M)),
                RatioLine ''  C cross / C native:        ''
                  (rat_of_int (t9 - t8) / rat_of_int M / (rat_of_int (t3 - t2) / rat_of_int M)),
                RatioLine ''  Rust cross / C native:     ''
                  (rat_of_int (t11 - t10) / rat_of_int M / (rat_of_int (t3 - t2) / rat_of_int M))] @
             Printed (Text ''\<newline>--- Falsification ---'') #
               (if rat_of_int (t5 - t4) / rat_of_int M < rat_of_int (t3 - t2) / rat_of_int M
                then [Printed (Text ''UNEXPECTED: Rust native FASTER than C native.''),
                      Printed (Text
                        ''The PyO3 boundary-crossing hypothesis is WRONG for this workload.'')]
                else [Printed (OverheadLine
                                 (rat_of_int (t5 - t4) / rat_of_int M -
                                  rat_of_int (t3 - t2) / rat_of_int M)
                                 ((rat_of_int (t5 - t4) / rat_of_int M -
                                   rat_of_int (t3 - t2) / rat_of_int M) / rat_of_int N)),
                      Printed (Text ''Consistent with PyO3 extract/borrow overhead per node.'')])))"
proof -
  have m: "M \<noteq> 0" by (simp add: M_def)
  have c: "rat_of_int (t3 - t2) / rat_of_int M \<noteq> 0" using assms m by simp
  show ?thesis
    unfolding main_def report_def Let_def
    by (simp only: bind_r_Inr verify_stub print_all_traced print_all_replay
          build_list_stub_lifted print_traced print_replay bench_native_stub bench_python_stub
          ratios_replay [OF c] falsification_replay if_False simp_thms append_assoc
          list.map append.simps)
qed

subsection \<open>The falsification check\<close>

text \<open>
  C4: the falsification check compares the timing of the Rust nodes under their own
  \<^verbatim>\<open>sum_list\<close> with the timing of the C nodes under theirs. Stated on a run of
  \<^verbatim>\<open>main\<close> that completes, for any runtime and any three modules. \<open>c_native\<close> and
  \<open>rust_native\<close> are the results of \<^verbatim>\<open>bench\<close> on the native \<^verbatim>\<open>sum_list\<close> of the
  C module over the list of C nodes and, right after it, on that of the Rust module over
  the list of Rust nodes; they are \<open>(t3 - t2) / M\<close> and \<open>(t5 - t4) / M\<close> for the clock
  readings around the two timed loops. The log of the run is the preamble, the header,
  the six timings in the order of the source (each the two clock readings of
  \<^verbatim>\<open>bench\<close> and the line it prints), the ratios and the falsification lines: the
  "hypothesis wrong" lines exactly when \<open>rust_native < c_native\<close>, and otherwise (equal
  timings included) the overhead per node, \<open>(rust_native - c_native) / N\<close>, and the
  "consistent" line. The timings are exact rationals where the source has floats.

  It is followed by three complete runs with stub modules whose sums are all right, on a
  clock that replays the given readings: the C timing is 3 ns in each, the Rust timing
  is 2 ns, 5 ns and 3 ns.
\<close>

theorem main_falsification_branch:
  assumes "main (traced_rt rt) env (lift_module py) (lift_module c) (lift_module rust) (w, tr0) =
             Some (Inr (), (w', tr))"
  shows "\<exists>py_list c_list rust_list w1 w2 w3 wa wb wc t0 t1 t2 t3 t4 t5 t6 t7 t8 t9 t10 t11
           py_native c_native rust_native py_cross c_cross rust_cross.
           build_list (Node py) N (print_all rt (preamble env) w) = (Inr py_list, w1) \<and>
           build_list (Node c) N w1 = (Inr c_list, w2) \<and>
           build_list (Node rust) N w2 = (Inr rust_list, w3) \<and>
           bench (traced_rt rt) ''C loop, C nodes''
             (Callable (native_sum_list (lift_module c))) (Some c_list) M wa =
             Some (Inr c_native, wb) \<and>
           bench (traced_rt rt) ''Rust loop, Rust nodes''
             (Callable (native_sum_list (lift_module rust))) (Some rust_list) M wb =
             Some (Inr rust_native, wc) \<and>
           py_native = rat_of_int (t1 - t0) / rat_of_int M \<and>
           c_native = rat_of_int (t3 - t2) / rat_of_int M \<and>
           rust_native = rat_of_int (t5 - t4) / rat_of_int M \<and>
           py_cross = rat_of_int (t7 - t6) / rat_of_int M \<and>
           c_cross = rat_of_int (t9 - t8) / rat_of_int M \<and>
           rust_cross = rat_of_int (t11 - t10) / rat_of_int M \<and>
           c_native \<noteq> 0 \<and>
           tr = tr0 @ map Printed (preamble env) @
             map Printed
               [CorrectnessLine (N * (N - 1) div 2) (N - 1), Text '''', SizeLine N M,
                Text ''Benchmark                                   ns/traversal'',
                Text (replicate 56 CHR ''-''),
                Text ''\<newline>--- Native (loop + data in same language) ---''] @
             [ClockRead t0, ClockRead t1, Printed (BenchLine ''Python loop, Python nodes'' py_native),
              ClockRead t2, ClockRead t3, Printed (BenchLine ''C loop, C nodes'' c_native),
              ClockRead t4, ClockRead t5, Printed (BenchLine ''Rust loop, Rust nodes'' rust_native),
              Printed (Text ''\<newline>--- Python loop, different node types ---''),
              ClockRead t6, ClockRead t7, Printed (BenchLine ''Python loop, Python nodes'' py_cross),
              ClockRead t8, ClockRead t9, Printed (BenchLine ''Python loop, C nodes'' c_cross),
              ClockRead t10, ClockRead t11,
              Printed (BenchLine ''Python loop, Rust nodes'' rust_cross)] @
             map Printed
               [Text ''\<newline>--- Ratios (relative to C native) ---'',
                RatioLine ''  Python native / C native:  '' (py_native / c_native),
                RatioLine ''  Rust native / C native:    '' (rust_native / c_native),
                RatioLine ''  Python cross / C native:   '' (py_cross / c_native),
                RatioLine ''  C cross / C native:        '' (c_cross / c_native),
                RatioLine ''  Rust cross / C native:     '' (rust_cross / c_native)] @
             Printed (Text ''\<newline>--- Falsification ---'') #
               (if rust_native < c_native
                then [Printed (Text ''UNEXPECTED: Rust native FASTER than C native.''),
                      Printed (Text
                        ''The PyO3 boundary-crossing hypothesis is WRONG for this workload.'')]
                else [Printed (OverheadLine (rust_native - c_native)
                                 ((rust_native - c_native) / rat_of_int N)),
                      Printed (Text ''Consistent with PyO3 extract/borrow overhead per node.'')])"
proof -
  from main_lifted [OF assms] obtain py_list c_list rust_list w1 w2 w3 where
    b: "build_list (Node py) N (print_all rt (preamble env) w) = (Inr py_list, w1)"
       "build_list (Node c) N w1 = (Inr c_list, w2)"
       "build_list (Node rust) N w2 = (Inr rust_list, w3)"
    and v: "case verify py c rust py_list c_list rust_list (N * (N - 1) div 2) w3 of
          None \<Rightarrow> False
        | Some (Inl e, w9) \<Rightarrow>
            (Inr () :: error + unit) = Inl e \<and> w' = w9 \<and> tr = tr0 @ map Printed (preamble env)
        | Some (Inr u, w9) \<Rightarrow>
            report (traced_rt rt) (lift_module py) (lift_module c) (lift_module rust)
              py_list c_list rust_list (N * (N - 1) div 2)
              (w9, tr0 @ map Printed (preamble env)) = Some (Inr (), (w', tr))"
    by blast
  obtain x w9 where s: "verify py c rust py_list c_list rust_list (N * (N - 1) div 2) w3 =
                          Some (x, w9)"
    using v by (cases "verify py c rust py_list c_list rust_list (N * (N - 1) div 2) w3") auto
  have "report (traced_rt rt) (lift_module py) (lift_module c) (lift_module rust)
          py_list c_list rust_list (N * (N - 1) div 2)
          (w9, tr0 @ map Printed (preamble env)) = Some (Inr (), (w', tr))"
    using v s by (cases x) auto
  from report_trace [OF this, unfolded append_assoc] b show ?thesis
    by (elim exE conjE) (intro exI conjI, assumption+)
qed

theorem main_falsification_branch_witness:
  "main (traced_rt replay_rt) env0 (lift_module (stub_module 499500 499500))
     (lift_module (stub_module 499500 499500)) (lift_module (stub_module 499500 499500))
     ([0, 900000, 1000000, 1300000, 1400000, 1600000, 2000000, 2700000, 3000000, 3800000,
       4000000, 4900000], []) =
   Some (Inr (), ([],
     map Printed (preamble env0) @
     map Printed
       [CorrectnessLine 499500 999, Text '''', SizeLine 1000 100000,
        Text ''Benchmark                                   ns/traversal'',
        Text (replicate 56 CHR ''-''),
        Text ''\<newline>--- Native (loop + data in same language) ---''] @
     [ClockRead 0, ClockRead 900000, Printed (BenchLine ''Python loop, Python nodes'' 9),
      ClockRead 1000000, ClockRead 1300000, Printed (BenchLine ''C loop, C nodes'' 3),
      ClockRead 1400000, ClockRead 1600000, Printed (BenchLine ''Rust loop, Rust nodes'' 2),
      Printed (Text ''\<newline>--- Python loop, different node types ---''),
      ClockRead 2000000, ClockRead 2700000, Printed (BenchLine ''Python loop, Python nodes'' 7),
      ClockRead 3000000, ClockRead 3800000, Printed (BenchLine ''Python loop, C nodes'' 8),
      ClockRead 4000000, ClockRead 4900000, Printed (BenchLine ''Python loop, Rust nodes'' 9)] @
     map Printed
       [Text ''\<newline>--- Ratios (relative to C native) ---'',
        RatioLine ''  Python native / C native:  '' 3,
        RatioLine ''  Rust native / C native:    '' (2 / 3),
        RatioLine ''  Python cross / C native:   '' (7 / 3),
        RatioLine ''  C cross / C native:        '' (8 / 3),
        RatioLine ''  Rust cross / C native:     '' 3,
        Text ''\<newline>--- Falsification ---'',
        Text ''UNEXPECTED: Rust native FASTER than C native.'',
        Text ''The PyO3 boundary-crossing hypothesis is WRONG for this workload.''])) \<and>
   main (traced_rt replay_rt) env0 (lift_module (stub_module 499500 499500))
     (lift_module (stub_module 499500 499500)) (lift_module (stub_module 499500 499500))
     ([0, 900000, 1000000, 1300000, 1400000, 1900000, 2000000, 2700000, 3000000, 3800000,
       4000000, 4900000], []) =
   Some (Inr (), ([],
     map Printed (preamble env0) @
     map Printed
       [CorrectnessLine 499500 999, Text '''', SizeLine 1000 100000,
        Text ''Benchmark                                   ns/traversal'',
        Text (replicate 56 CHR ''-''),
        Text ''\<newline>--- Native (loop + data in same language) ---''] @
     [ClockRead 0, ClockRead 900000, Printed (BenchLine ''Python loop, Python nodes'' 9),
      ClockRead 1000000, ClockRead 1300000, Printed (BenchLine ''C loop, C nodes'' 3),
      ClockRead 1400000, ClockRead 1900000, Printed (BenchLine ''Rust loop, Rust nodes'' 5),
      Printed (Text ''\<newline>--- Python loop, different node types ---''),
      ClockRead 2000000, ClockRead 2700000, Printed (BenchLine ''Python loop, Python nodes'' 7),
      ClockRead 3000000, ClockRead 3800000, Printed (BenchLine ''Python loop, C nodes'' 8),
      ClockRead 4000000, ClockRead 4900000, Printed (BenchLine ''Python loop, Rust nodes'' 9)] @
     map Printed
       [Text ''\<newline>--- Ratios (relative to C native) ---'',
        RatioLine ''  Python native / C native:  '' 3,
        RatioLine ''  Rust native / C native:    '' (5 / 3),
        RatioLine ''  Python cross / C native:   '' (7 / 3),
        RatioLine ''  C cross / C native:        '' (8 / 3),
        RatioLine ''  Rust cross / C native:     '' 3,
        Text ''\<newline>--- Falsification ---'',
        OverheadLine 2 (1 / 500),
        Text ''Consistent with PyO3 extract/borrow overhead per node.''])) \<and>
   main (traced_rt replay_rt) env0 (lift_module (stub_module 499500 499500))
     (lift_module (stub_module 499500 499500)) (lift_module (stub_module 499500 499500))
     ([0, 900000, 1000000, 1300000, 1400000, 1700000, 2000000, 2700000, 3000000, 3800000,
       4000000, 4900000], []) =
   Some (Inr (), ([],
     map Printed (preamble env0) @
     map Printed
       [CorrectnessLine 499500 999, Text '''', SizeLine 1000 100000,
        Text ''Benchmark                                   ns/traversal'',
        Text (replicate 56 CHR ''-''),
        Text ''\<newline>--- Native (loop + data in same language) ---''] @
     [ClockRead 0, ClockRead 900000, Printed (BenchLine ''Python loop, Python nodes'' 9),
      ClockRead 1000000, ClockRead 1300000, Printed (BenchLine ''C loop, C nodes'' 3),
      ClockRead 1400000, ClockRead 1700000, Printed (BenchLine ''Rust loop, Rust nodes'' 3),
      Printed (Text ''\<newline>--- Python loop, different node types ---''),
      ClockRead 2000000, ClockRead 2700000, Printed (BenchLine ''Python loop, Python nodes'' 7),
      ClockRead 3000000, ClockRead 3800000, Printed (BenchLine ''Python loop, C nodes'' 8),
      ClockRead 4000000, ClockRead 4900000, Printed (BenchLine ''Python loop, Rust nodes'' 9)] @
     map Printed
       [Text ''\<newline>--- Ratios (relative to C native) ---'',
        RatioLine ''  Python native / C native:  '' 3,
        RatioLine ''  Rust native / C native:    '' 1,
        RatioLine ''  Python cross / C native:   '' (7 / 3),
        RatioLine ''  C cross / C native:        '' (8 / 3),
        RatioLine ''  Rust cross / C native:     '' 3,
        Text ''\<newline>--- Falsification ---'',
        OverheadLine 0 0,
        Text ''Consistent with PyO3 extract/borrow overhead per node.'']))"
proof -
  have E: "N * (N - 1) div 2 = 499500" by (simp add: N_def)
  have r: ?thesis
    using main_stub_run [where ?t0.0 = 0 and ?t1.0 = 900000 and ?t2.0 = 1000000 and
        ?t3.0 = 1300000 and ?t4.0 = 1400000 and ?t5.0 = 1600000 and ?t6.0 = 2000000 and
        ?t7.0 = 2700000 and ?t8.0 = 3000000 and ?t9.0 = 3800000 and ?t10.0 = 4000000 and
        ?t11.0 = 4900000 and env = env0 and ?tr0.0 = "[]", unfolded E]
      main_stub_run [where ?t0.0 = 0 and ?t1.0 = 900000 and ?t2.0 = 1000000 and
        ?t3.0 = 1300000 and ?t4.0 = 1400000 and ?t5.0 = 1900000 and ?t6.0 = 2000000 and
        ?t7.0 = 2700000 and ?t8.0 = 3000000 and ?t9.0 = 3800000 and ?t10.0 = 4000000 and
        ?t11.0 = 4900000 and env = env0 and ?tr0.0 = "[]", unfolded E]
      main_stub_run [where ?t0.0 = 0 and ?t1.0 = 900000 and ?t2.0 = 1000000 and
        ?t3.0 = 1300000 and ?t4.0 = 1400000 and ?t5.0 = 1700000 and ?t6.0 = 2000000 and
        ?t7.0 = 2700000 and ?t8.0 = 3000000 and ?t9.0 = 3800000 and ?t10.0 = 4000000 and
        ?t11.0 = 4900000 and env = env0 and ?tr0.0 = "[]", unfolded E]
    by (simp add: N_def M_def)
  show ?thesis
    using main_falsification_branch [OF r [THEN conjunct1]]
      main_falsification_branch [OF r [THEN conjunct2, THEN conjunct1]]
      main_falsification_branch [OF r [THEN conjunct2, THEN conjunct2]]
    by - (rule r)
qed

subsection \<open>The verification gates the timings\<close>

text \<open>
  C5: the correctness verification gates the timings. In a run of \<^verbatim>\<open>main\<close> that
  returns, for any runtime and any three modules, the three lists are built, and then
  either the six sums, computed one after the other as in the source, all equal
  \<^verbatim>\<open>N * (N - 1) // 2\<close>, the verification passes and the run goes on as the report; or
  one of them does not, and the run ends in the AssertionError of a sum assertion with
  a log that is exactly the lines of the preamble: no clock reading and no benchmark
  line, so no timing was taken or reported. Assertions are enabled, as they are by default.

  It is followed by three runs with stub modules in which one sum is wrong: the sixth
  (the Python loop over the Rust nodes gives 7), the second (the C function gives 499499)
  and the first. The clock readings are left unread.
\<close>

theorem main_verification_gates_timing:
  assumes "main (traced_rt rt) env (lift_module py) (lift_module c) (lift_module rust) (w, tr0) =
             Some (r, (w', tr))"
  shows "\<exists>py_list c_list rust_list w1 w2 w3.
           build_list (Node py) N (print_all rt (preamble env) w) = (Inr py_list, w1) \<and>
           build_list (Node c) N w1 = (Inr c_list, w2) \<and>
           build_list (Node rust) N w2 = (Inr rust_list, w3) \<and>
           (if \<exists>w4 w5 w6 w7 w8 w9.
                 native_sum_list py (Some py_list) w3 = Some (N * (N - 1) div 2, w4) \<and>
                 native_sum_list c (Some c_list) w4 = Some (N * (N - 1) div 2, w5) \<and>
                 native_sum_list rust (Some rust_list) w5 = Some (N * (N - 1) div 2, w6) \<and>
                 python_sum_list (Node py) (Some py_list) w6 = Some (N * (N - 1) div 2, w7) \<and>
                 python_sum_list (Node c) (Some c_list) w7 = Some (N * (N - 1) div 2, w8) \<and>
                 python_sum_list (Node rust) (Some rust_list) w8 = Some (N * (N - 1) div 2, w9)
            then \<exists>w9. verify py c rust py_list c_list rust_list (N * (N - 1) div 2) w3 =
                         Some (Inr (), w9) \<and>
                       report (traced_rt rt) (lift_module py) (lift_module c) (lift_module rust)
                         py_list c_list rust_list (N * (N - 1) div 2)
                         (w9, tr0 @ map Printed (preamble env)) = Some (r, (w', tr))
            else (\<exists>name got. r = Inl (SumWrong name got (N * (N - 1) div 2))) \<and>
                 tr = tr0 @ map Printed (preamble env))"
proof -
  let ?E = "N * (N - 1) div 2"
  from main_lifted [OF assms] obtain py_list c_list rust_list w1 w2 w3 where
    b: "build_list (Node py) N (print_all rt (preamble env) w) = (Inr py_list, w1)"
       "build_list (Node c) N w1 = (Inr c_list, w2)"
       "build_list (Node rust) N w2 = (Inr rust_list, w3)"
    and v: "case verify py c rust py_list c_list rust_list ?E w3 of
              None \<Rightarrow> False
            | Some (Inl e, w9) \<Rightarrow> r = Inl e \<and> w' = w9 \<and> tr = tr0 @ map Printed (preamble env)
            | Some (Inr u, w9) \<Rightarrow>
                report (traced_rt rt) (lift_module py) (lift_module c) (lift_module rust)
                  py_list c_list rust_list ?E
                  (w9, tr0 @ map Printed (preamble env)) = Some (r, (w', tr))"
    by blast
  let ?agree = "\<exists>w4 w5 w6 w7 w8 w9.
                 native_sum_list py (Some py_list) w3 = Some (?E, w4) \<and>
                 native_sum_list c (Some c_list) w4 = Some (?E, w5) \<and>
                 native_sum_list rust (Some rust_list) w5 = Some (?E, w6) \<and>
                 python_sum_list (Node py) (Some py_list) w6 = Some (?E, w7) \<and>
                 python_sum_list (Node c) (Some c_list) w7 = Some (?E, w8) \<and>
                 python_sum_list (Node rust) (Some rust_list) w8 = Some (?E, w9)"
  have iff: "?agree \<longleftrightarrow> (\<exists>w9. verify py c rust py_list c_list rust_list ?E w3 = Some (Inr (), w9))"
    unfolding verify_Inr_iff by blast
  obtain x w9 where s: "verify py c rust py_list c_list rust_list ?E w3 = Some (x, w9)"
    using v by (cases "verify py c rust py_list c_list rust_list ?E w3") auto
  have "if ?agree
        then \<exists>w9. verify py c rust py_list c_list rust_list ?E w3 = Some (Inr (), w9) \<and>
                   report (traced_rt rt) (lift_module py) (lift_module c) (lift_module rust)
                     py_list c_list rust_list ?E
                     (w9, tr0 @ map Printed (preamble env)) = Some (r, (w', tr))
        else (\<exists>name got. r = Inl (SumWrong name got ?E)) \<and>
             tr = tr0 @ map Printed (preamble env)"
  proof (cases x)
    case (Inl e)
    from verify_Inl [OF s [unfolded Inl]] obtain name got where "e = SumWrong name got ?E"
      by blast
    moreover have "\<not> ?agree" unfolding iff using s Inl by simp
    ultimately show ?thesis using v s Inl by simp
  next
    case (Inr u)
    then have "?agree" unfolding iff using s by simp
    then show ?thesis using v s Inr by simp
  qed
  with b show ?thesis by blast
qed

theorem main_verification_gates_timing_witness:
  "main (traced_rt replay_rt) env0 (lift_module (stub_module 499500 499500))
     (lift_module (stub_module 499500 499500)) (lift_module (stub_module 499500 7))
     ([0, 1000], []) =
   Some (Inl (SumWrong ''python_sum_list(rust)'' 7 499500),
         ([0, 1000], map Printed (preamble env0))) \<and>
   main (traced_rt replay_rt) env0 (lift_module (stub_module 499500 499500))
     (lift_module (stub_module 499499 499500)) (lift_module (stub_module 499500 499500))
     ([0, 1000], []) =
   Some (Inl (SumWrong ''c_sum_list'' 499499 499500),
         ([0, 1000], map Printed (preamble env0))) \<and>
   main (traced_rt replay_rt) env0 (lift_module (stub_module 0 0))
     (lift_module (stub_module 0 0)) (lift_module (stub_module 0 0))
     ([0, 1000], []) =
   Some (Inl (SumWrong ''py_sum_list'' 0 499500),
         ([0, 1000], map Printed (preamble env0)))"
proof -
  have E: "N * (N - 1) div 2 = 499500" by (simp add: N_def)
  have r: ?thesis
    unfolding main_def Let_def
    by (simp add: bind_r_Inr bind_r_Inl verify_stub print_all_traced print_all_replay
          build_list_stub_lifted E)
  show ?thesis
    using main_verification_gates_timing [OF r [THEN conjunct1]]
      main_verification_gates_timing [OF r [THEN conjunct2, THEN conjunct1]]
      main_verification_gates_timing [OF r [THEN conjunct2, THEN conjunct2]]
    by - (rule r)
qed

end
